theory Spec2Isabelle
  imports Complex_Main "HOL-Library.AList" "HOL-Library.Multiset"
begin

section \<open>JavaScript numbers\<close>

text \<open>
  The personalization engine of \<^verbatim>\<open>production-analytics.js\<close> computes with JavaScript
  numbers. The source writes the literal \<^verbatim>\<open>Infinity\<close> into every new profile, and
  several of its ratios can become \<^verbatim>\<open>NaN\<close>, so both are values of the model. Finite
  numbers are exact reals: the rounding of doubles is left out, and zero is the positive
  zero. Nothing below that is stated for all inputs rests on how a sum is associated.
\<close>

datatype jsnum = Num real | PInf | NInf | NaN

fun js_neg :: "jsnum \<Rightarrow> jsnum" where
  "js_neg (Num a) = Num (- a)"
| "js_neg PInf = NInf"
| "js_neg NInf = PInf"
| "js_neg NaN = NaN"

fun js_add :: "jsnum \<Rightarrow> jsnum \<Rightarrow> jsnum" where
  "js_add NaN _ = NaN"
| "js_add _ NaN = NaN"
| "js_add (Num a) (Num b) = Num (a + b)"
| "js_add PInf NInf = NaN"
| "js_add NInf PInf = NaN"
| "js_add PInf _ = PInf"
| "js_add _ PInf = PInf"
| "js_add NInf _ = NInf"
| "js_add _ NInf = NInf"

definition js_sub :: "jsnum \<Rightarrow> jsnum \<Rightarrow> jsnum" where
  "js_sub a b = js_add a (js_neg b)"

fun js_is_zero :: "jsnum \<Rightarrow> bool" where
  "js_is_zero (Num a) = (a = 0)"
| "js_is_zero _ = False"

fun js_positive :: "jsnum \<Rightarrow> bool" where
  "js_positive (Num a) = (0 \<le> a)"
| "js_positive PInf = True"
| "js_positive _ = False"

fun js_mul :: "jsnum \<Rightarrow> jsnum \<Rightarrow> jsnum" where
  "js_mul NaN _ = NaN"
| "js_mul _ NaN = NaN"
| "js_mul (Num a) (Num b) = Num (a * b)"
| "js_mul x y =
     (if js_is_zero x \<or> js_is_zero y then NaN
      else if js_positive x = js_positive y then PInf else NInf)"

fun js_is_inf :: "jsnum \<Rightarrow> bool" where
  "js_is_inf PInf = True"
| "js_is_inf NInf = True"
| "js_is_inf _ = False"

fun js_div :: "jsnum \<Rightarrow> jsnum \<Rightarrow> jsnum" where
  "js_div NaN _ = NaN"
| "js_div _ NaN = NaN"
| "js_div (Num a) (Num b) =
     (if b = 0 then (if a = 0 then NaN else if 0 < a then PInf else NInf)
      else Num (a / b))"
| "js_div (Num a) _ = Num 0"
| "js_div x y =
     (if js_is_inf y then NaN
      else if js_positive x = js_positive y then PInf else NInf)"

fun js_lt :: "jsnum \<Rightarrow> jsnum \<Rightarrow> bool" where
  "js_lt NaN _ = False"
| "js_lt _ NaN = False"
| "js_lt (Num a) (Num b) = (a < b)"
| "js_lt _ NInf = False"
| "js_lt PInf _ = False"
| "js_lt NInf _ = True"
| "js_lt _ PInf = True"

fun js_le :: "jsnum \<Rightarrow> jsnum \<Rightarrow> bool" where
  "js_le NaN _ = False"
| "js_le _ NaN = False"
| "js_le (Num a) (Num b) = (a \<le> b)"
| "js_le NInf _ = True"
| "js_le _ PInf = True"
| "js_le _ NInf = False"
| "js_le PInf _ = False"

definition js_gt :: "jsnum \<Rightarrow> jsnum \<Rightarrow> bool" where
  "js_gt a b = js_lt b a"

definition js_ge :: "jsnum \<Rightarrow> jsnum \<Rightarrow> bool" where
  "js_ge a b = js_le b a"

text \<open>\<^verbatim>\<open>Math.min\<close> and \<^verbatim>\<open>Math.max\<close> of two numbers: \<^verbatim>\<open>NaN\<close> when either is.\<close>

definition js_min :: "jsnum \<Rightarrow> jsnum \<Rightarrow> jsnum" where
  "js_min a b = (if a = NaN \<or> b = NaN then NaN else if js_le a b then a else b)"

definition js_max :: "jsnum \<Rightarrow> jsnum \<Rightarrow> jsnum" where
  "js_max a b = (if a = NaN \<or> b = NaN then NaN else if js_le a b then b else a)"

text \<open>Truthiness of a number: \<^verbatim>\<open>0\<close> and \<^verbatim>\<open>NaN\<close> are falsy.\<close>

fun js_truthy :: "jsnum \<Rightarrow> bool" where
  "js_truthy (Num a) = (a \<noteq> 0)"
| "js_truthy NaN = False"
| "js_truthy _ = True"

text \<open>\<^verbatim>\<open>m.get(k) || d\<close> on a \<^verbatim>\<open>Map\<close> of finite numbers: a missing entry is
  \<^verbatim>\<open>undefined\<close>, and both \<^verbatim>\<open>undefined\<close> and \<^verbatim>\<open>0\<close> give the default. A \<^verbatim>\<open>Map\<close> has no
  inherited keys.\<close>

definition or_default :: "real option \<Rightarrow> real \<Rightarrow> real" where
  "or_default x d = (case x of None \<Rightarrow> d | Some v \<Rightarrow> if v = 0 then d else v)"

text \<open>\<^verbatim>\<open>a === b\<close> on numbers: \<^verbatim>\<open>NaN\<close> equals nothing, itself included.\<close>

definition js_equals :: "jsnum \<Rightarrow> jsnum \<Rightarrow> bool" where
  "js_equals a b = (a \<noteq> NaN \<and> b \<noteq> NaN \<and> a = b)"

text \<open>\<^verbatim>\<open>Math.sqrt\<close>.\<close>

fun js_sqrt :: "jsnum \<Rightarrow> jsnum" where
  "js_sqrt (Num a) = (if a < 0 then NaN else Num (sqrt a))"
| "js_sqrt PInf = PInf"
| "js_sqrt _ = NaN"

section \<open>Values read from plain objects\<close>

text \<open>
  The affinity tables, the style counters and the weight tables of the configuration are
  plain objects used as dictionaries, read with \<^verbatim>\<open>obj[key]\<close>. Such a read also finds
  what the object inherits from \<^verbatim>\<open>Object.prototype\<close>: a function under
  \<^verbatim>\<open>toString\<close>, \<^verbatim>\<open>constructor\<close> and the like, the prototype itself under
  \<^verbatim>\<open>__proto__\<close>. Adding a number to one of these concatenates strings, and the table
  then holds a string. So a value is a number, a string (\<open>Text\<close>: not empty and not the
  text of a number, which is all that arithmetic and truthiness ask of it), a function
  or object (\<open>Obj\<close>), or \<^verbatim>\<open>undefined\<close>.
\<close>

datatype jsval = Number jsnum | Text | Obj | Undefined

fun truthy :: "jsval \<Rightarrow> bool" where
  "truthy (Number n) = js_truthy n"
| "truthy Text = True"
| "truthy Obj = True"
| "truthy Undefined = False"

text \<open>\<^verbatim>\<open>a || b\<close>.\<close>

definition js_or :: "jsval \<Rightarrow> jsval \<Rightarrow> jsval" where
  "js_or a b = (if truthy a then a else b)"

text \<open>Conversion to a number, as \<^verbatim>\<open>*\<close>, \<^verbatim>\<open>/\<close>, \<^verbatim>\<open>Math.min\<close> and \<^verbatim>\<open>Math.max\<close> apply it.\<close>

fun to_number :: "jsval \<Rightarrow> jsnum" where
  "to_number (Number n) = n"
| "to_number _ = NaN"

text \<open>\<^verbatim>\<open>a * b\<close>.\<close>

definition js_times :: "jsval \<Rightarrow> jsval \<Rightarrow> jsnum" where
  "js_times a b = js_mul (to_number a) (to_number b)"

text \<open>\<^verbatim>\<open>a + b\<close>: addition of two numbers, \<^verbatim>\<open>NaN\<close> with \<^verbatim>\<open>undefined\<close>, and a string as
  soon as one side is a string, a function or an object.\<close>

fun js_plus :: "jsval \<Rightarrow> jsval \<Rightarrow> jsval" where
  "js_plus (Number a) (Number b) = Number (js_add a b)"
| "js_plus (Number a) Undefined = Number NaN"
| "js_plus Undefined (Number b) = Number NaN"
| "js_plus Undefined Undefined = Number NaN"
| "js_plus _ _ = Text"

text \<open>The names every plain object inherits from \<^verbatim>\<open>Object.prototype\<close>.\<close>

definition object_prototype_keys :: "string list" where
  "object_prototype_keys =
     [''constructor'', ''__defineGetter__'', ''__defineSetter__'', ''hasOwnProperty'',
      ''__lookupGetter__'', ''__lookupSetter__'', ''isPrototypeOf'', ''propertyIsEnumerable'',
      ''toString'', ''valueOf'', ''__proto__'', ''toLocaleString'']"

text \<open>A plain object is the list of its own properties in the order \<^verbatim>\<open>Object.keys\<close>
  gives them.\<close>

type_synonym table = "(string \<times> jsval) list"

text \<open>\<^verbatim>\<open>obj[k]\<close>: the own property, else what is inherited, else \<^verbatim>\<open>undefined\<close>.
  \<^verbatim>\<open>__proto__\<close> is an accessor and always gives the prototype.\<close>

definition js_get :: "table \<Rightarrow> string \<Rightarrow> jsval" where
  "js_get obj k =
     (if k = ''__proto__'' then Obj
      else case map_of obj k of
             Some v \<Rightarrow> v
           | None \<Rightarrow> if k \<in> set object_prototype_keys then Obj else Undefined)"

text \<open>
  The order of own keys: array indices first, in ascending numeric order, then the other
  strings in the order they were created. An array index is the decimal text, without
  leading zeros, of a number below \<open>2\<^sup>3\<^sup>2 - 1\<close>.
\<close>

definition digit_of :: "char \<Rightarrow> nat option" where
  "digit_of =
     map_of [(CHR ''0'', 0), (CHR ''1'', 1), (CHR ''2'', 2), (CHR ''3'', 3), (CHR ''4'', 4),
             (CHR ''5'', 5), (CHR ''6'', 6), (CHR ''7'', 7), (CHR ''8'', 8), (CHR ''9'', 9)]"

fun digits_value :: "string \<Rightarrow> nat \<Rightarrow> nat option" where
  "digits_value [] n = Some n"
| "digits_value (c # cs) n =
     (case digit_of c of None \<Rightarrow> None | Some d \<Rightarrow> digits_value cs (10 * n + d))"

definition array_index :: "string \<Rightarrow> nat option" where
  "array_index s =
     (if s = [] then None
      else if hd s = CHR ''0'' \<and> length s > 1 then None
      else case digits_value s 0 of
             None \<Rightarrow> None
           | Some n \<Rightarrow> if n < 4294967295 then Some n else None)"

fun insert_index :: "nat \<Rightarrow> string \<Rightarrow> 'v \<Rightarrow> (string \<times> 'v) list \<Rightarrow> (string \<times> 'v) list" where
  "insert_index n k v [] = [(k, v)]"
| "insert_index n k v (e # rest) =
     (case array_index (fst e) of
        Some n' \<Rightarrow> if n' < n then e # insert_index n k v rest else (k, v) # e # rest
      | None \<Rightarrow> (k, v) # e # rest)"

definition object_set :: "string \<Rightarrow> 'v \<Rightarrow> (string \<times> 'v) list \<Rightarrow> (string \<times> 'v) list" where
  "object_set k v obj =
     (if k \<in> set (map fst obj) then AList.update k v obj
      else case array_index k of
             Some n \<Rightarrow> insert_index n k v obj
           | None \<Rightarrow> obj @ [(k, v)])"

text \<open>\<^verbatim>\<open>obj[k] = v\<close> for a value that is not an object: an own property is written or
  created, but the setter of \<^verbatim>\<open>__proto__\<close> ignores such a value.\<close>

definition js_set :: "string \<Rightarrow> jsval \<Rightarrow> table \<Rightarrow> table" where
  "js_set k v obj = (if k = ''__proto__'' then obj else object_set k v obj)"

text \<open>A weight table of the configuration, whose own values are finite numbers, as a
  plain object.\<close>

definition numbers :: "(string \<times> real) list \<Rightarrow> table" where
  "numbers m = map (\<lambda>e. (fst e, Number (Num (snd e)))) m"

text \<open>\<^verbatim>\<open>[...new Set(xs)]\<close>: the elements of \<open>xs\<close> in order of first occurrence.\<close>

definition js_set_list :: "'a list \<Rightarrow> 'a list" where
  "js_set_list xs = rev (remdups (rev xs))"

text \<open>\<^verbatim>\<open>Object.keys\<close> of a plain object.\<close>

definition object_keys :: "('k \<times> 'v) list \<Rightarrow> 'k list" where
  "object_keys m = map fst m"

section \<open>Configuration\<close>

text \<open>
  The constructor builds the sections below from its argument and then spreads the
  argument over them. The model is of the configurations whose sections are these
  objects; an argument that names a section itself (\<^verbatim>\<open>userProfiling: true\<close>) replaces
  the section and is outside the model.
\<close>

record userProfiling_config =
  maxHistoryItems :: nat
  categoryWeights :: "(string \<times> real) list"

record timeWeights_config =
  recent :: real
  week :: real
  month :: real
  older :: real

record behaviorAnalysis_config =
  clickWeights :: "(string \<times> real) list"
  timeWeights :: timeWeights_config

record recommendations_config =
  hybridWeight :: real
  minSimilarUsers :: nat
  diversityFactor :: real

record realTimeAdaptation_config =
  enabled :: bool

record config =
  userProfiling :: userProfiling_config
  behaviorAnalysis :: behaviorAnalysis_config
  recommendations :: recommendations_config
  realTimeAdaptation :: realTimeAdaptation_config

text \<open>The configuration that the constructor builds from an empty argument.\<close>

definition defaultConfig :: config where
  "defaultConfig =
     \<lparr> userProfiling =
         \<lparr> maxHistoryItems = 1000,
           categoryWeights =
             [(''clothing'', 1), (''shoes'', 9/10), (''accessories'', 8/10),
              (''electronics'', 7/10), (''home'', 6/10)] \<rparr>,
       behaviorAnalysis =
         \<lparr> clickWeights =
             [(''view'', 1), (''click'', 2), (''add_to_cart'', 5), (''purchase'', 10),
              (''wishlist'', 3), (''share'', 5/2)],
           timeWeights = \<lparr> recent = 1, week = 8/10, month = 6/10, older = 3/10 \<rparr> \<rparr>,
       recommendations =
         \<lparr> hybridWeight = 7/10, minSimilarUsers = 5, diversityFactor = 3/10 \<rparr>,
       realTimeAdaptation = \<lparr> enabled = True \<rparr> \<rparr>"

section \<open>Data model\<close>

text \<open>
  An interaction is a duck-typed object in the source; the fields the engine reads are
  listed here, each absent field being \<open>None\<close>. An entry of \<^verbatim>\<open>behaviorHistory\<close> is
  the interaction with its \<^verbatim>\<open>timestamp\<close> overwritten and a \<^verbatim>\<open>weight\<close> added. A
  profile is as it is within a session: saving the store to \<^verbatim>\<open>localStorage\<close> and
  loading it on the next start turns \<^verbatim>\<open>Infinity\<close> into \<^verbatim>\<open>null\<close>, and such a reloaded
  profile is outside the model.
\<close>

record interaction =
  type :: string
  productId :: "nat option"
  category :: "string option"
  brand :: "string option"
  price :: "jsnum option"
  style :: "string option"
  tags :: "string list option"
  season :: "string option"
  timeOfDay :: "string option"
  timestamp :: "int option"

record history_entry = interaction +
  weight :: jsnum

record purchase =
  purchase_productId :: "nat option"
  purchase_price :: "jsnum option"
  purchase_category :: "string option"
  purchase_timestamp :: int

record price_range =
  min_bound :: jsnum
  max_bound :: jsnum

record styleProfile_t =
  styles :: "table option"
  style_tags :: "table option"

record profile =
  userId :: string
  behaviorHistory :: "history_entry list"
  purchaseHistory :: "purchase list"
  categoryAffinities :: table
  brandAffinities :: table
  priceRange :: price_range
  preferredPriceRange :: "price_range option"
  styleProfile :: styleProfile_t
  lastUpdated :: int
  totalInteractions :: nat
  conversionRate :: real
  averageOrderValue :: jsnum
  lifetimeValue :: jsnum

text \<open>\<^verbatim>\<open>createNewUserProfile\<close>; \<open>now\<close> is the reading of \<^verbatim>\<open>Date.now()\<close>. The fields
  \<^verbatim>\<open>demographics\<close>, \<^verbatim>\<open>preferences\<close>, \<^verbatim>\<open>searchHistory\<close> and \<^verbatim>\<open>seasonalPreferences\<close>
  are never read or written again and are left out.\<close>

definition createNewUserProfile :: "string \<Rightarrow> int \<Rightarrow> profile" where
  "createNewUserProfile uid now =
     \<lparr> userId = uid,
       behaviorHistory = [],
       purchaseHistory = [],
       categoryAffinities = [],
       brandAffinities = [],
       priceRange = \<lparr> min_bound = Num 0, max_bound = PInf \<rparr>,
       preferredPriceRange = None,
       styleProfile = \<lparr> styles = None, style_tags = None \<rparr>,
       lastUpdated = now,
       totalInteractions = 0,
       conversionRate = 0,
       averageOrderValue = Num 0,
       lifetimeValue = Num 0 \<rparr>"

text \<open>The profile store \<^verbatim>\<open>this.userProfiles\<close> is a \<^verbatim>\<open>Map\<close>: an association list in
  insertion order. \<^verbatim>\<open>getUserProfile\<close> stores a new profile for an unseen user.\<close>

type_synonym store = "(string \<times> profile) list"

definition getUserProfile :: "store \<Rightarrow> int \<Rightarrow> string \<Rightarrow> profile \<times> store" where
  "getUserProfile st now uid =
     (case map_of st uid of
        Some p \<Rightarrow> (p, st)
      | None \<Rightarrow> (createNewUserProfile uid now, st @ [(uid, createNewUserProfile uid now)]))"

section \<open>Similarity of two profiles\<close>

definition calculateCategorySimilarity :: "profile \<Rightarrow> profile \<Rightarrow> jsnum" where
  "calculateCategorySimilarity profile1 profile2 =
     (let categories1 = object_keys (categoryAffinities profile1);
          categories2 = object_keys (categoryAffinities profile2);
          allCategories = js_set_list (categories1 @ categories2)
      in if length allCategories = 0 then Num 0
         else
           let (dotProduct, norm1, norm2) =
                 fold (\<lambda>c (d, n1, n2).
                         let affinity1 = js_or (js_get (categoryAffinities profile1) c) (Number (Num 0));
                             affinity2 = js_or (js_get (categoryAffinities profile2) c) (Number (Num 0))
                         in (js_add d (js_times affinity1 affinity2),
                             js_add n1 (js_times affinity1 affinity1),
                             js_add n2 (js_times affinity2 affinity2)))
                      allCategories (Num 0, Num 0, Num 0)
           in if norm1 = Num 0 \<or> norm2 = Num 0 then Num 0
              else js_div dotProduct (js_mul (js_sqrt norm1) (js_sqrt norm2)))"

definition calculateBrandSimilarity :: "profile \<Rightarrow> profile \<Rightarrow> real" where
  "calculateBrandSimilarity profile1 profile2 =
     (let brands1 = js_set_list (object_keys (brandAffinities profile1));
          brands2 = js_set_list (object_keys (brandAffinities profile2));
          intersection = js_set_list (filter (\<lambda>x. x \<in> set brands2) brands1);
          union = js_set_list (brands1 @ brands2)
      in if length union > 0 then real (length intersection) / real (length union) else 0)"

text \<open>Both constructors of a profile set \<^verbatim>\<open>priceRange\<close>, so the guard
  \<^verbatim>\<open>if (!range1 || !range2) return 0\<close> never fires and has no branch here.\<close>

definition effectiveRange :: "profile \<Rightarrow> price_range" where
  "effectiveRange p = (case preferredPriceRange p of Some r \<Rightarrow> r | None \<Rightarrow> priceRange p)"

definition calculatePriceSimilarity :: "profile \<Rightarrow> profile \<Rightarrow> jsnum" where
  "calculatePriceSimilarity profile1 profile2 =
     (let range1 = effectiveRange profile1;
          range2 = effectiveRange profile2;
          overlap = js_max (Num 0)
                      (js_sub (js_min (max_bound range1) (max_bound range2))
                              (js_max (min_bound range1) (min_bound range2)));
          totalRange = js_sub (js_max (max_bound range1) (max_bound range2))
                              (js_min (min_bound range1) (min_bound range2))
      in if js_gt totalRange (Num 0) then js_div overlap totalRange else Num 0)"

definition calculateStyleSimilarity :: "profile \<Rightarrow> profile \<Rightarrow> jsnum" where
  "calculateStyleSimilarity profile1 profile2 =
     (let styles1 = (case styles (styleProfile profile1) of Some s \<Rightarrow> s | None \<Rightarrow> []);
          styles2 = (case styles (styleProfile profile2) of Some s \<Rightarrow> s | None \<Rightarrow> []);
          allStyles = js_set_list (object_keys styles1 @ object_keys styles2)
      in if length allStyles = 0 then Num 0
         else
           js_div
             (fold (\<lambda>s similarity.
                      let count1 = js_or (js_get styles1 s) (Number (Num 0));
                          count2 = js_or (js_get styles2 s) (Number (Num 0))
                      in js_add similarity
                           (js_div (js_min (to_number count1) (to_number count2))
                                   (js_max (js_max (to_number count1) (to_number count2)) (Num 1))))
                   allStyles (Num 0))
             (Num (real (length allStyles))))"

text \<open>The body of \<^verbatim>\<open>calculateUserSimilarity\<close> once both profiles are fetched.\<close>

definition userSimilarity :: "profile \<Rightarrow> profile \<Rightarrow> jsnum" where
  "userSimilarity profile1 profile2 =
     (let categorySimilarity = calculateCategorySimilarity profile1 profile2;
          brandSimilarity = calculateBrandSimilarity profile1 profile2;
          priceSimilarity = calculatePriceSimilarity profile1 profile2;
          styleSimilarity = calculateStyleSimilarity profile1 profile2
      in js_add
           (js_add
              (js_add (js_mul categorySimilarity (Num (4/10))) (Num (brandSimilarity * (3/10))))
              (js_mul priceSimilarity (Num (2/10))))
           (js_mul styleSimilarity (Num (1/10))))"

definition calculateUserSimilarity :: "store \<Rightarrow> int \<Rightarrow> string \<Rightarrow> string \<Rightarrow> jsnum \<times> store" where
  "calculateUserSimilarity st now userId1 userId2 =
     (let (profile1, st1) = getUserProfile st now userId1;
          (profile2, st2) = getUserProfile st1 now userId2
      in (userSimilarity profile1 profile2, st2))"

section \<open>Recording an interaction\<close>

text \<open>
  One call of \<^verbatim>\<open>updateUserProfile\<close> reads the clock several times. The readings are
  the fields of a record, in the order the source takes them, and nothing is assumed
  about how they relate: \<open>now_create\<close> in \<^verbatim>\<open>createNewUserProfile\<close>, \<open>now_update\<close> at
  the head of \<^verbatim>\<open>updateUserProfile\<close>, \<open>now_weight\<close> in \<^verbatim>\<open>calculateTimeWeight\<close>,
  \<open>now_purchase\<close> in \<^verbatim>\<open>updateConversionMetrics\<close>; \<open>cur_month\<close> and \<open>cur_hour\<close> are
  \<^verbatim>\<open>getMonth()\<close> and \<^verbatim>\<open>getHours()\<close> of \<^verbatim>\<open>new Date()\<close>.
\<close>

record clock =
  now_create :: int
  now_update :: int
  now_weight :: int
  now_purchase :: int
  cur_month :: nat
  cur_hour :: nat

definition getCurrentTimeOfDay :: "clock \<Rightarrow> string" where
  "getCurrentTimeOfDay clk =
     (let hour = cur_hour clk
      in if hour \<ge> 6 \<and> hour < 12 then ''morning''
         else if hour \<ge> 12 \<and> hour < 17 then ''afternoon''
         else if hour \<ge> 17 \<and> hour < 21 then ''evening''
         else ''night'')"

definition getCurrentSeason :: "clock \<Rightarrow> string" where
  "getCurrentSeason clk =
     (let month = cur_month clk
      in if month \<ge> 2 \<and> month \<le> 4 then ''spring''
         else if month \<ge> 5 \<and> month \<le> 7 then ''summer''
         else if month \<ge> 8 \<and> month \<le> 10 then ''fall''
         else ''winter'')"

text \<open>Truthiness of an optional string: absent and empty strings are falsy.\<close>

definition str_truthy :: "string option \<Rightarrow> bool" where
  "str_truthy s = (case s of None \<Rightarrow> False | Some x \<Rightarrow> x \<noteq> [])"

definition dayMs :: int where
  "dayMs = 24 * 60 * 60 * 1000"

text \<open>\<^verbatim>\<open>calculateTimeWeight(timestamp)\<close>; \<open>now\<close> is its own reading of the clock.\<close>

definition calculateTimeWeight :: "config \<Rightarrow> int \<Rightarrow> int \<Rightarrow> real" where
  "calculateTimeWeight cfg now ts =
     (let age = now - ts
      in if age < dayMs then recent (timeWeights (behaviorAnalysis cfg))
         else if age < 7 * dayMs then week (timeWeights (behaviorAnalysis cfg))
         else if age < 30 * dayMs then month (timeWeights (behaviorAnalysis cfg))
         else older (timeWeights (behaviorAnalysis cfg)))"

definition calculateContextWeight :: "clock \<Rightarrow> 'a interaction_scheme \<Rightarrow> real" where
  "calculateContextWeight clk i =
     (let weight = 1;
          weight = (if str_truthy (season i) \<and> Some (getCurrentSeason clk) = season i
                    then weight * (12/10) else weight);
          weight = (if str_truthy (timeOfDay i) \<and> Some (getCurrentTimeOfDay clk) = timeOfDay i
                    then weight * (11/10) else weight)
      in weight)"

definition calculateInteractionWeight :: "config \<Rightarrow> clock \<Rightarrow> 'a interaction_scheme \<Rightarrow> int \<Rightarrow> jsnum" where
  "calculateInteractionWeight cfg clk i ts =
     (let baseWeight = js_or (js_get (numbers (clickWeights (behaviorAnalysis cfg))) (type i))
                         (Number (Num 1));
          timeWeight = calculateTimeWeight cfg (now_weight clk) ts;
          contextWeight = calculateContextWeight clk i
      in js_mul (js_mul (to_number baseWeight) (Num timeWeight)) (Num contextWeight))"

definition updateCategoryAffinity :: "config \<Rightarrow> profile \<Rightarrow> string \<Rightarrow> string \<Rightarrow> profile" where
  "updateCategoryAffinity cfg p cat interactionType =
     (let affs = (if \<not> truthy (js_get (categoryAffinities p) cat)
                  then js_set cat (Number (Num 0)) (categoryAffinities p)
                  else categoryAffinities p);
          weight = js_or (js_get (numbers (clickWeights (behaviorAnalysis cfg))) interactionType)
                     (Number (Num 1));
          categoryWeight = js_or (js_get (numbers (categoryWeights (userProfiling cfg))) cat)
                             (Number (Num 1))
      in p\<lparr>categoryAffinities :=
             js_set cat (js_plus (js_get affs cat) (Number (js_times weight categoryWeight))) affs\<rparr>)"

definition updateBrandAffinity :: "config \<Rightarrow> profile \<Rightarrow> string \<Rightarrow> string \<Rightarrow> profile" where
  "updateBrandAffinity cfg p b interactionType =
     (let affs = (if \<not> truthy (js_get (brandAffinities p) b)
                  then js_set b (Number (Num 0)) (brandAffinities p)
                  else brandAffinities p);
          weight = js_or (js_get (numbers (clickWeights (behaviorAnalysis cfg))) interactionType)
                     (Number (Num 1))
      in p\<lparr>brandAffinities := js_set b (js_plus (js_get affs b) weight) affs\<rparr>)"

text \<open>
  \<^verbatim>\<open>Array.prototype.sort\<close> with a comparator is stable. Where the comparator is a
  consistent order, which it is on finite scores, the result is the one stable sorted
  arrangement, computed here by insertion from the right. A comparator result of
  \<^verbatim>\<open>NaN\<close> counts as zero, as the language defines.
\<close>

fun js_insert :: "('a \<Rightarrow> 'a \<Rightarrow> jsnum) \<Rightarrow> 'a \<Rightarrow> 'a list \<Rightarrow> 'a list" where
  "js_insert cmp x [] = [x]"
| "js_insert cmp x (y # ys) =
     (if js_gt (cmp x y) (Num 0) then y # js_insert cmp x ys else x # y # ys)"

definition js_sort :: "('a \<Rightarrow> 'a \<Rightarrow> jsnum) \<Rightarrow> 'a list \<Rightarrow> 'a list" where
  "js_sort cmp xs = foldr (js_insert cmp) xs []"

text \<open>\<^verbatim>\<open>xs.slice(-n)\<close> for a natural \<open>n\<close>: \<^verbatim>\<open>slice(-0)\<close> is the whole array.\<close>

definition slice_last :: "nat \<Rightarrow> 'a list \<Rightarrow> 'a list" where
  "slice_last n xs = (if n = 0 then xs else drop (length xs - n) xs)"

definition price_truthy :: "jsnum option \<Rightarrow> bool" where
  "price_truthy v = (case v of None \<Rightarrow> False | Some x \<Rightarrow> js_truthy x)"

text \<open>\<^verbatim>\<open>profile.purchaseHistory.map(p => p.price).filter(p => p)\<close>.\<close>

definition recordedPurchasePrices :: "profile \<Rightarrow> jsnum list" where
  "recordedPurchasePrices p =
     map the (filter price_truthy (map purchase_price (purchaseHistory p)))"

definition updatePricePreferences :: "profile \<Rightarrow> jsnum \<Rightarrow> profile" where
  "updatePricePreferences p pr =
     (let r = priceRange p;
          r = (if \<not> js_truthy (min_bound r) \<or> js_lt pr (min_bound r)
               then r\<lparr>min_bound := pr\<rparr> else r);
          r = (if \<not> js_truthy (max_bound r) \<or> js_gt pr (max_bound r)
               then r\<lparr>max_bound := pr\<rparr> else r);
          p = p\<lparr>priceRange := r\<rparr>;
          prices = js_sort (\<lambda>a b. js_sub a b) (recordedPurchasePrices p)
      in if length prices \<ge> 5
         then let p10 = prices ! nat \<lfloor>real (length prices) * (1/10)\<rfloor>;
                  p90 = prices ! nat \<lfloor>real (length prices) * (9/10)\<rfloor>
              in p\<lparr>preferredPriceRange := Some \<lparr>min_bound = p10, max_bound = p90\<rparr>\<rparr>
         else p)"

definition increment_count :: "string \<Rightarrow> table \<Rightarrow> table" where
  "increment_count k m = js_set k (js_plus (js_or (js_get m k) (Number (Num 0))) (Number (Num 1))) m"

definition updateStyleProfile :: "profile \<Rightarrow> string option \<Rightarrow> string list option \<Rightarrow> profile" where
  "updateStyleProfile p st tgs =
     (let styles0 = (case styles (styleProfile p) of None \<Rightarrow> [] | Some s \<Rightarrow> s);
          tags0 = (case style_tags (styleProfile p) of None \<Rightarrow> [] | Some t \<Rightarrow> t);
          styles1 = (case st of
                       Some s \<Rightarrow> if s \<noteq> [] then increment_count s styles0 else styles0
                     | None \<Rightarrow> styles0);
          tags1 = (case tgs of
                     Some ts \<Rightarrow> fold increment_count ts tags0
                   | None \<Rightarrow> tags0)
      in p\<lparr>styleProfile := \<lparr>styles = Some styles1, style_tags = Some tags1\<rparr>\<rparr>)"

definition price_or_zero :: "jsnum option \<Rightarrow> jsnum" where
  "price_or_zero v = (if price_truthy v then the v else Num 0)"

definition updateConversionMetrics :: "clock \<Rightarrow> profile \<Rightarrow> 'a interaction_scheme \<Rightarrow> profile" where
  "updateConversionMetrics clk p i =
     (if type i = ''purchase''
      then
        let p = p\<lparr>purchaseHistory := purchaseHistory p @
                     [\<lparr>purchase_productId = productId i, purchase_price = price i,
                       purchase_category = category i, purchase_timestamp = now_purchase clk\<rparr>]\<rparr>;
            totalViews = length (filter (\<lambda>h. type h = ''view'') (behaviorHistory p));
            totalPurchases = length (purchaseHistory p);
            p = p\<lparr>conversionRate :=
                     (if totalViews > 0 then real totalPurchases / real totalViews else 0)\<rparr>;
            totalValue = fold (\<lambda>q sum. js_add sum (price_or_zero (purchase_price q)))
                           (purchaseHistory p) (Num 0)
        in p\<lparr>averageOrderValue :=
                 (if totalPurchases > 0 then js_div totalValue (Num (real totalPurchases))
                  else Num 0),
               lifetimeValue := totalValue\<rparr>
      else p)"

text \<open>The entry pushed to \<^verbatim>\<open>behaviorHistory\<close>:
  \<^verbatim>\<open>{...interaction, timestamp: now, weight: calculateInteractionWeight(interaction, now)}\<close>.\<close>

definition historyEntry :: "config \<Rightarrow> clock \<Rightarrow> interaction \<Rightarrow> history_entry" where
  "historyEntry cfg clk i =
     \<lparr> type = type i, productId = productId i, category = category i, brand = brand i,
       price = price i, style = style i, tags = tags i, season = season i,
       timeOfDay = timeOfDay i, timestamp = Some (now_update clk),
       weight = calculateInteractionWeight cfg clk i (now_update clk) \<rparr>"

text \<open>The body of \<^verbatim>\<open>updateUserProfile\<close> on the fetched profile. Writing the store to
  \<^verbatim>\<open>localStorage\<close> (\<^verbatim>\<open>saveUserProfiles\<close>) changes nothing the engine reads back
  within a session and is left out.\<close>

definition updateProfile :: "config \<Rightarrow> clock \<Rightarrow> profile \<Rightarrow> interaction \<Rightarrow> profile" where
  "updateProfile cfg clk p i =
     (let now = now_update clk;
          p = p\<lparr>behaviorHistory := behaviorHistory p @ [historyEntry cfg clk i]\<rparr>;
          p = (if length (behaviorHistory p) > maxHistoryItems (userProfiling cfg)
               then p\<lparr>behaviorHistory :=
                        slice_last (maxHistoryItems (userProfiling cfg)) (behaviorHistory p)\<rparr>
               else p);
          p = (if str_truthy (category i)
               then updateCategoryAffinity cfg p (the (category i)) (type i) else p);
          p = (if str_truthy (brand i)
               then updateBrandAffinity cfg p (the (brand i)) (type i) else p);
          p = (if price_truthy (price i)
               then updatePricePreferences p (the (price i)) else p);
          p = (if str_truthy (style i) \<or> tags i \<noteq> None
               then updateStyleProfile p (style i) (tags i) else p);
          p = updateConversionMetrics clk p i
      in p\<lparr>totalInteractions := totalInteractions p + 1, lastUpdated := now\<rparr>)"

definition updateUserProfile :: "config \<Rightarrow> store \<Rightarrow> clock \<Rightarrow> string \<Rightarrow> interaction \<Rightarrow> profile \<times> store" where
  "updateUserProfile cfg st clk uid i =
     (let (p, st1) = getUserProfile st (now_create clk) uid;
          p' = updateProfile cfg clk p i
      in (p', AList.update uid p' st1))"

text \<open>A session: interactions recorded one after another for one user, each with the
  clock readings of its call. \<open>profiles_run\<close> lists the profile after every step.\<close>

fun profiles_run :: "config \<Rightarrow> profile \<Rightarrow> (clock \<times> interaction) list \<Rightarrow> profile list" where
  "profiles_run cfg p [] = [p]"
| "profiles_run cfg p ((clk, i) # rest) = p # profiles_run cfg (updateProfile cfg clk p i) rest"

section \<open>Products and recommendations\<close>

text \<open>
  A product is read-only. A field the catalog may leave out is an option; used as an
  object key, \<^verbatim>\<open>undefined\<close> is the string \<^verbatim>\<open>"undefined"\<close>. Catalog entries carry the
  derived \<^verbatim>\<open>features\<close> as well, so the functions take any extension of the record.
\<close>

record product =
  product_id :: nat
  product_category :: "string option"
  product_brand :: "string option"
  product_price :: "jsnum option"
  product_tags :: "string list option"
  product_season :: "string option"

record features_t =
  features_priceRange :: string
  features_style :: string
  features_occasion :: string

record catalog_product = product +
  features :: features_t

definition js_key :: "string option \<Rightarrow> string" where
  "js_key k = (case k of Some s \<Rightarrow> s | None \<Rightarrow> ''undefined'')"

text \<open>\<^verbatim>\<open>products.find(p => p.id === productId)\<close>; an absent \<^verbatim>\<open>productId\<close> equals no id.\<close>

definition find_product :: "'a product_scheme list \<Rightarrow> nat option \<Rightarrow> 'a product_scheme option" where
  "find_product products pid =
     (case pid of None \<Rightarrow> None | Some n \<Rightarrow> List.find (\<lambda>p. product_id p = n) products)"

text \<open>The price test of \<^verbatim>\<open>getContentBasedRecommendations\<close>:
  \<^verbatim>\<open>product.price >= priceRange.min && product.price <= priceRange.max\<close>, false for an
  absent price, which compares as \<^verbatim>\<open>NaN\<close>.\<close>

definition priceWithinRange :: "profile \<Rightarrow> 'a product_scheme \<Rightarrow> bool" where
  "priceWithinRange p prd =
     (let priceRange = effectiveRange p
      in case product_price prd of
           None \<Rightarrow> False
         | Some v \<Rightarrow> js_ge v (min_bound priceRange) \<and> js_le v (max_bound priceRange))"

text \<open>The score that the loop body of \<^verbatim>\<open>getContentBasedRecommendations\<close> gives one
  product, in its three steps: the category and brand affinities, the price
  contribution, the style term. An empty \<^verbatim>\<open>tags\<close> array makes the style term \<^verbatim>\<open>0/0\<close>.\<close>

definition affinityScore :: "profile \<Rightarrow> 'a product_scheme \<Rightarrow> jsnum" where
  "affinityScore p prd =
     (let score = Num 0;
          categoryAffinity = js_or (js_get (categoryAffinities p) (js_key (product_category prd)))
                               (Number (Num 0));
          score = js_add score (js_times categoryAffinity (Number (Num (4/10))));
          brandAffinity = js_or (js_get (brandAffinities p) (js_key (product_brand prd)))
                            (Number (Num 0));
          score = js_add score (js_times brandAffinity (Number (Num (3/10))))
      in score)"

definition addStyleScore :: "profile \<Rightarrow> 'a product_scheme \<Rightarrow> jsnum \<Rightarrow> jsnum" where
  "addStyleScore p prd score =
     (case (product_tags prd, style_tags (styleProfile p)) of
        (Some ptags, Some stags) \<Rightarrow>
          let styleScore =
                js_div
                  (to_number
                     (fold (\<lambda>tag sum. js_plus sum (js_or (js_get stags tag) (Number (Num 0))))
                        ptags (Number (Num 0))))
                  (Num (real (length ptags)))
          in js_add score (js_mul styleScore (Num (1/10)))
      | _ \<Rightarrow> score)"

definition contentScore :: "profile \<Rightarrow> 'a product_scheme \<Rightarrow> jsnum" where
  "contentScore p prd =
     (let score = affinityScore p prd;
          score = (if priceWithinRange p prd then js_add score (Num (2/10)) else score)
      in addStyleScore p prd score)"

definition getContentBasedRecommendations ::
  "store \<Rightarrow> int \<Rightarrow> string \<Rightarrow> 'a product_scheme list \<Rightarrow> nat \<Rightarrow> 'a product_scheme list \<times> store" where
  "getContentBasedRecommendations st now uid products limit =
     (let (p, st1) = getUserProfile st now uid;
          recommendations =
            map (\<lambda>prd. (prd, contentScore p prd))
              (filter (\<lambda>prd. js_gt (contentScore p prd) (Num 0)) products)
      in (map fst (take limit (js_sort (\<lambda>a b. js_sub (snd b) (snd a)) recommendations)), st1))"

text \<open>
  \<^verbatim>\<open>findSimilarUsers\<close> walks the store. A profile that \<^verbatim>\<open>getUserProfile\<close> adds during
  the walk can only be the target's own, which the walk skips, so the walk is over the
  keys present at its start.
\<close>

fun collectSimilarities ::
  "store \<Rightarrow> int \<Rightarrow> string \<Rightarrow> string list \<Rightarrow> (string \<times> jsnum) list \<times> store" where
  "collectSimilarities st now uid [] = ([], st)"
| "collectSimilarities st now uid (otherUserId # rest) =
     (if otherUserId \<noteq> uid
      then
        let (similarity, st1) = calculateUserSimilarity st now uid otherUserId;
            (similarities, st2) = collectSimilarities st1 now uid rest
        in (if js_gt similarity (Num (1/10))
            then (otherUserId, similarity) # similarities else similarities, st2)
      else collectSimilarities st now uid rest)"

definition findSimilarUsers :: "store \<Rightarrow> int \<Rightarrow> string \<Rightarrow> nat \<Rightarrow> (string \<times> jsnum) list \<times> store" where
  "findSimilarUsers st now uid limit =
     (let (similarities, st1) = collectSimilarities st now uid (map fst st)
      in (take limit (js_sort (\<lambda>a b. js_sub (snd b) (snd a)) similarities), st1))"

text \<open>\<^verbatim>\<open>(m.get(k) || 0)\<close> on a \<^verbatim>\<open>Map\<close> of numbers.\<close>

definition get_or_zero :: "('k \<times> jsnum) list \<Rightarrow> 'k \<Rightarrow> jsnum" where
  "get_or_zero m k = (case map_of m k of Some v \<Rightarrow> if js_truthy v then v else Num 0 | None \<Rightarrow> Num 0)"

definition scoreInteraction ::
  "'a product_scheme list \<Rightarrow> jsnum \<Rightarrow> history_entry \<Rightarrow> (nat \<times> jsnum) list \<Rightarrow> (nat \<times> jsnum) list" where
  "scoreInteraction products similarity h productScores =
     (if type h = ''purchase'' \<or> type h = ''add_to_cart''
      then case find_product products (productId h) of
             Some prd \<Rightarrow>
               let score = js_mul similarity (weight h)
               in AList.update (product_id prd)
                    (js_add (get_or_zero productScores (product_id prd)) score) productScores
           | None \<Rightarrow> productScores
      else productScores)"

fun scoreSimilarUsers ::
  "store \<Rightarrow> int \<Rightarrow> 'a product_scheme list \<Rightarrow> (string \<times> jsnum) list \<Rightarrow> (nat \<times> jsnum) list
     \<Rightarrow> (nat \<times> jsnum) list \<times> store" where
  "scoreSimilarUsers st now products [] productScores = (productScores, st)"
| "scoreSimilarUsers st now products ((similarUserId, similarity) # rest) productScores =
     (let (similarProfile, st1) = getUserProfile st now similarUserId
      in scoreSimilarUsers st1 now products rest
           (fold (scoreInteraction products similarity) (behaviorHistory similarProfile) productScores))"

definition getCollaborativeRecommendations ::
  "config \<Rightarrow> store \<Rightarrow> int \<Rightarrow> string \<Rightarrow> 'a product_scheme list \<Rightarrow> nat \<Rightarrow> 'a product_scheme list \<times> store" where
  "getCollaborativeRecommendations cfg st now uid products limit =
     (let (similarUsers, st1) = findSimilarUsers st now uid (minSimilarUsers (recommendations cfg))
      in if length similarUsers = 0
         then getContentBasedRecommendations st1 now uid products limit
         else
           let (productScores, st2) = scoreSimilarUsers st1 now products similarUsers []
           in (List.map_filter (\<lambda>(pid, score). find_product products (Some pid))
                 (take limit (js_sort (\<lambda>a b. js_sub (snd b) (snd a)) productScores)), st2))"

text \<open>
  \<^verbatim>\<open>applyDiversityFilter\<close>. The second pass asks \<^verbatim>\<open>diverseRecs.includes(rec)\<close>, which
  compares objects by identity. The entries of the array are distinct objects (the
  caller builds each with its own object literal), so each is tagged with its index and
  the tag decides identity.
\<close>

definition set_add :: "'a \<Rightarrow> 'a list \<Rightarrow> 'a list" where
  "set_add x s = (if x \<in> set s then s else s @ [x])"

fun diversityFirstPass ::
  "config \<Rightarrow> nat \<Rightarrow> (nat \<times> 'a product_scheme \<times> real) list \<Rightarrow> (nat \<times> 'a product_scheme \<times> real) list
     \<Rightarrow> string option list \<Rightarrow> (nat \<times> 'a product_scheme \<times> real) list" where
  "diversityFirstPass cfg limit [] diverseRecs usedCategories = diverseRecs"
| "diversityFirstPass cfg limit (rec # rest) diverseRecs usedCategories =
     (if length diverseRecs \<ge> limit then diverseRecs
      else
        let cat = product_category (fst (snd rec));
            categoryCount = length (filter (\<lambda>c. c = cat) usedCategories);
            maxPerCategory = \<lceil>real limit * diversityFactor (recommendations cfg)\<rceil>
        in if int categoryCount < maxPerCategory
           then diversityFirstPass cfg limit rest (diverseRecs @ [rec]) (set_add cat usedCategories)
           else diversityFirstPass cfg limit rest diverseRecs usedCategories)"

fun diversitySecondPass ::
  "nat \<Rightarrow> (nat \<times> 'b) list \<Rightarrow> (nat \<times> 'b) list \<Rightarrow> (nat \<times> 'b) list" where
  "diversitySecondPass limit [] diverseRecs = diverseRecs"
| "diversitySecondPass limit (rec # rest) diverseRecs =
     (if length diverseRecs \<ge> limit then diverseRecs
      else if fst rec \<notin> set (map fst diverseRecs)
      then diversitySecondPass limit rest (diverseRecs @ [rec])
      else diversitySecondPass limit rest diverseRecs)"

definition applyDiversityFilter ::
  "config \<Rightarrow> ('a product_scheme \<times> real) list \<Rightarrow> nat \<Rightarrow> ('a product_scheme \<times> real) list" where
  "applyDiversityFilter cfg recs limit =
     (if length recs \<le> limit then recs
      else
        let tagged = enumerate 0 recs;
            diverseRecs = diversityFirstPass cfg limit tagged [] [];
            diverseRecs = diversitySecondPass limit tagged diverseRecs
        in map snd (take limit diverseRecs))"

text \<open>One \<^verbatim>\<open>forEach\<close> of \<^verbatim>\<open>getPersonalizedRecommendations\<close>: the product at \<open>index\<close> of a
  ranked list of length \<open>n\<close> adds \<open>(n - index) / n\<close> times the weight \<open>w\<close> to its entry.\<close>

definition real_get_or_zero :: "('k \<times> real) list \<Rightarrow> 'k \<Rightarrow> real" where
  "real_get_or_zero m k = or_default (map_of m k) 0"

definition addRankScores ::
  "real \<Rightarrow> 'a product_scheme list \<Rightarrow> (nat \<times> real) list \<Rightarrow> (nat \<times> real) list" where
  "addRankScores w recs combinedScores =
     fold (\<lambda>(index, prd) m.
             let score = (real (length recs) - real index) / real (length recs)
             in AList.update (product_id prd) (real_get_or_zero m (product_id prd) + score * w) m)
          (enumerate 0 recs) combinedScores"

definition getPersonalizedRecommendations ::
  "config \<Rightarrow> store \<Rightarrow> int \<Rightarrow> string \<Rightarrow> 'a product_scheme list \<Rightarrow> nat \<Rightarrow> 'a product_scheme list \<times> store" where
  "getPersonalizedRecommendations cfg st now uid products limit =
     (let (collaborativeRecs, st1) = getCollaborativeRecommendations cfg st now uid products (limit * 2);
          (contentBasedRecs, st2) = getContentBasedRecommendations st1 now uid products (limit * 2);
          hybridWeight = hybridWeight (recommendations cfg);
          combinedScores = addRankScores hybridWeight collaborativeRecs [];
          combinedScores = addRankScores (1 - hybridWeight) contentBasedRecs combinedScores;
          sortedProducts =
            List.map_filter
              (\<lambda>(pid, score). map_option (\<lambda>prd. (prd, score)) (find_product products (Some pid)))
              (js_sort (\<lambda>a b. Num (snd b - snd a)) combinedScores);
          diverseRecommendations = applyDiversityFilter cfg sortedProducts limit
      in (map fst diverseRecommendations, st2))"

section \<open>Contextual boost\<close>

text \<open>\<^verbatim>\<open>this.contextualData\<close> is the empty object until \<^verbatim>\<open>updateContextualData\<close> has run,
  so each field may be absent; an absent \<^verbatim>\<open>isWeekend\<close> is falsy.\<close>

record contextualData =
  ctx_timeOfDay :: "string option"
  ctx_season :: "string option"
  ctx_isWeekend :: bool

definition has_tag :: "string list \<Rightarrow> string \<Rightarrow> bool" where
  "has_tag ts t = (t \<in> set ts)"

definition contextualBoostOf :: "contextualData \<Rightarrow> 'a product_scheme \<Rightarrow> real" where
  "contextualBoostOf ctx prd =
     (let boost = 1;
          boost = (case product_tags prd of
                     Some ts \<Rightarrow>
                       let boost = (if ctx_timeOfDay ctx = Some ''morning'' \<and> has_tag ts ''work''
                                    then boost * (12/10) else boost);
                           boost = (if ctx_timeOfDay ctx = Some ''evening'' \<and> has_tag ts ''casual''
                                    then boost * (12/10) else boost);
                           boost = (if ctx_isWeekend ctx \<and> has_tag ts ''leisure''
                                    then boost * (11/10) else boost)
                       in boost
                   | None \<Rightarrow> boost);
          boost = (if product_season prd = ctx_season ctx then boost * (13/10) else boost);
          boost = (if product_category prd = Some ''outerwear'' \<and> ctx_season ctx = Some ''winter''
                   then boost * (14/10) else boost);
          boost = (if product_category prd = Some ''swimwear'' \<and> ctx_season ctx = Some ''summer''
                   then boost * (14/10) else boost)
      in boost)"

text \<open>\<^verbatim>\<open>applyContextualBoost\<close>: \<^verbatim>\<open>{...product, contextualBoost: boost}\<close> is the pair of
  the product and its boost.\<close>

definition applyContextualBoost ::
  "store \<Rightarrow> int \<Rightarrow> contextualData \<Rightarrow> 'a product_scheme list \<Rightarrow> string
     \<Rightarrow> ('a product_scheme \<times> real) list \<times> store" where
  "applyContextualBoost st now ctx recs uid =
     (let (p, st1) = getUserProfile st now uid
      in (map (\<lambda>prd. (prd, contextualBoostOf ctx prd)) recs, st1))"

record options =
  opt_limit :: nat
  opt_category :: "string option"
  opt_priceRange :: "string option"
  opt_style :: "string option"
  opt_occasion :: "string option"
  opt_includeContextual :: bool

text \<open>\<^verbatim>\<open>getRecommendations\<close>. A returned product carries \<^verbatim>\<open>contextualBoost\<close> only when
  the boost was applied; the caller's sort is by that field alone.\<close>

definition filterProducts :: "options \<Rightarrow> catalog_product list \<Rightarrow> catalog_product list" where
  "filterProducts opts productCatalog =
     (let products = productCatalog;
          products = (if str_truthy (opt_category opts)
                      then filter (\<lambda>p. product_category p = opt_category opts) products else products);
          products = (if str_truthy (opt_priceRange opts)
                      then filter (\<lambda>p. Some (features_priceRange (features p)) = opt_priceRange opts) products
                      else products);
          products = (if str_truthy (opt_style opts)
                      then filter (\<lambda>p. Some (features_style (features p)) = opt_style opts) products
                      else products);
          products = (if str_truthy (opt_occasion opts)
                      then filter (\<lambda>p. Some (features_occasion (features p)) = opt_occasion opts) products
                      else products)
      in products)"

definition getRecommendations ::
  "config \<Rightarrow> store \<Rightarrow> int \<Rightarrow> contextualData \<Rightarrow> catalog_product list \<Rightarrow> string \<Rightarrow> options
     \<Rightarrow> (catalog_product \<times> real option) list \<times> store" where
  "getRecommendations cfg st now ctx productCatalog uid opts =
     (let products = filterProducts opts productCatalog;
          (recs, st1) = getPersonalizedRecommendations cfg st now uid products (opt_limit opts)
      in if opt_includeContextual opts \<and> enabled (realTimeAdaptation cfg)
         then
           let (boosted, st2) = applyContextualBoost st1 now ctx recs uid;
               sorted = js_sort (\<lambda>a b. Num (or_default (Some (snd b)) 1 - or_default (Some (snd a)) 1)) boosted
           in (map (\<lambda>(prd, boost). (prd, Some boost)) (take (opt_limit opts) sorted), st2)
         else (map (\<lambda>prd. (prd, None)) (take (opt_limit opts) recs), st1))"

section \<open>Reading a profile\<close>

text \<open>\<^verbatim>\<open>profile.categoryAffinities[c] || 0\<close>, the way the engine reads an affinity.\<close>

definition categoryAffinity :: "profile \<Rightarrow> string \<Rightarrow> jsval" where
  "categoryAffinity p c = js_or (js_get (categoryAffinities p) c) (Number (Num 0))"

text \<open>Every value of a table of numbers is at least zero.\<close>

definition nonnegative :: "(string \<times> real) list \<Rightarrow> bool" where
  "nonnegative m = list_all (\<lambda>e. 0 \<le> snd e) m"

text \<open>Every own value of a plain object is a finite number that is at least zero.\<close>

fun nonnegative_number :: "jsval \<Rightarrow> bool" where
  "nonnegative_number (Number (Num v)) = (0 \<le> v)"
| "nonnegative_number _ = False"

definition nonnegative_table :: "table \<Rightarrow> bool" where
  "nonnegative_table m = list_all (\<lambda>e. nonnegative_number (snd e)) m"

text \<open>A name that a plain object does not inherit.\<close>

definition plain_key :: "string \<Rightarrow> bool" where
  "plain_key k = (k \<notin> set object_prototype_keys)"

text \<open>An interaction whose type and category are such names.\<close>

definition plain_interaction :: "interaction \<Rightarrow> bool" where
  "plain_interaction i =
     (plain_key (type i) \<and> (case category i of None \<Rightarrow> True | Some c \<Rightarrow> plain_key c))"

section \<open>Fixtures\<close>

text \<open>A catalog entry that has only an id and a category.\<close>

definition plain_product :: "nat \<Rightarrow> string \<Rightarrow> product" where
  "plain_product n c =
     \<lparr> product_id = n, product_category = Some c, product_brand = None,
       product_price = None, product_tags = None, product_season = None \<rparr>"

text \<open>Clock readings of one call on a January morning, all in the same millisecond.\<close>

definition winter_clock :: clock where
  "winter_clock =
     \<lparr> now_create = 1700000000000, now_update = 1700000000000, now_weight = 1700000000000,
       now_purchase = 1700000000000, cur_month = 0, cur_hour = 9 \<rparr>"

text \<open>A view of product 1 in a category, with nothing else set.\<close>

definition view_of :: "string \<Rightarrow> interaction" where
  "view_of c =
     \<lparr> type = ''view'', productId = Some 1, category = Some c, brand = None, price = None,
       style = None, tags = None, season = None, timeOfDay = None, timestamp = None \<rparr>"

text \<open>A store that holds two users who have not interacted yet.\<close>

definition two_new_users :: store where
  "two_new_users = [(''u'', createNewUserProfile ''u'' 0), (''v'', createNewUserProfile ''v'' 0)]"

text \<open>A catalog entry with an id, a category and a price.\<close>

definition priced_product :: "nat \<Rightarrow> string \<Rightarrow> real \<Rightarrow> product" where
  "priced_product n c x = (plain_product n c)\<lparr>product_price := Some (Num x)\<rparr>"

text \<open>The contextual snapshot of a weekday morning in winter.\<close>

definition winter_context :: contextualData where
  "winter_context = \<lparr> ctx_timeOfDay = Some ''morning'', ctx_season = Some ''winter'', ctx_isWeekend = False \<rparr>"

text \<open>The options of \<^verbatim>\<open>getRecommendations\<close> when the caller passes none.\<close>

definition default_options :: options where
  "default_options = \<lparr> opt_limit = 10, opt_category = None, opt_priceRange = None,
     opt_style = None, opt_occasion = None, opt_includeContextual = True \<rparr>"

text \<open>A catalog entry with a tag, a price and its derived features.\<close>

definition catalog_entry :: "nat \<Rightarrow> string \<Rightarrow> real \<Rightarrow> catalog_product" where
  "catalog_entry n c x =
     \<lparr> product_id = n, product_category = Some c, product_brand = None,
       product_price = Some (Num x), product_tags = Some [''casual''], product_season = None,
       features = \<lparr> features_priceRange = ''mid-range'', features_style = ''casual'',
                    features_occasion = ''general'' \<rparr> \<rparr>"

text \<open>A view of a product that has a price.\<close>

definition priced_view :: "string \<Rightarrow> real \<Rightarrow> interaction" where
  "priced_view c x = (view_of c)\<lparr>price := Some (Num x)\<rparr>"

section \<open>What every profile of a session satisfies\<close>

text \<open>The upper bound of \<^verbatim>\<open>priceRange\<close> is still \<^verbatim>\<open>Infinity\<close>, and there is no
  \<^verbatim>\<open>preferredPriceRange\<close> while fewer than five purchase prices are recorded.\<close>

definition price_invariant :: "profile \<Rightarrow> bool" where
  "price_invariant p =
     (max_bound (priceRange p) = PInf \<and>
      (length (recordedPurchasePrices p) < 5 \<longrightarrow> preferredPriceRange p = None))"

section \<open>Sets and sorting\<close>

lemma set_js_set_list: "set (js_set_list xs) = set xs"
  by (simp add: js_set_list_def)

lemma distinct_js_set_list: "distinct (js_set_list xs)"
  by (simp add: js_set_list_def)

lemma length_js_set_list: "length (js_set_list xs) = card (set xs)"
  using distinct_card [OF distinct_js_set_list, of xs] by (simp add: set_js_set_list)

lemma mset_js_insert: "mset (js_insert cmp x ys) = add_mset x (mset ys)"
  by (induction ys) simp_all

lemma mset_js_sort: "mset (js_sort cmp xs) = mset xs"
  by (induction xs) (simp_all add: js_sort_def mset_js_insert)

lemma set_js_sort: "set (js_sort cmp xs) = set xs"
  using mset_js_sort [of cmp xs] by (metis set_mset_mset)

lemma length_js_sort: "length (js_sort cmp xs) = length xs"
  using mset_js_sort [of cmp xs] by (metis size_mset)

lemma distinct_map_js_sort: "distinct (map f (js_sort cmp xs)) = distinct (map f xs)"
proof -
  have "mset (map f (js_sort cmp xs)) = mset (map f xs)"
    by (simp add: mset_js_sort)
  then show ?thesis by (rule mset_eq_imp_distinct_iff)
qed

section \<open>The store\<close>

lemma getUserProfile_again:
  "fst (getUserProfile (snd (getUserProfile st now v)) now u) = fst (getUserProfile st now u)"
  by (auto simp: getUserProfile_def split: option.splits if_splits)

lemma calculateUserSimilarity_fst:
  "fst (calculateUserSimilarity st now u1 u2)
     = userSimilarity (fst (getUserProfile st now u1)) (fst (getUserProfile st now u2))"
  using getUserProfile_again [of st now u1 u2]
  by (simp add: calculateUserSimilarity_def split_beta)

section \<open>Similarity\<close>

lemma calculatePriceSimilarity_new_profiles:
  "calculatePriceSimilarity (createNewUserProfile a t1) (createNewUserProfile b t2) = NaN"
  by (simp add: calculatePriceSimilarity_def effectiveRange_def createNewUserProfile_def
      js_min_def js_max_def js_sub_def js_gt_def)

lemma userSimilarity_new_profiles:
  "userSimilarity (createNewUserProfile a t1) (createNewUserProfile b t2) = NaN"
proof -
  have c: "calculateCategorySimilarity (createNewUserProfile a t1) (createNewUserProfile b t2) = Num 0"
    by (simp add: calculateCategorySimilarity_def createNewUserProfile_def object_keys_def
        js_set_list_def)
  have b: "calculateBrandSimilarity (createNewUserProfile a t1) (createNewUserProfile b t2) = 0"
    by (simp add: calculateBrandSimilarity_def createNewUserProfile_def object_keys_def
        js_set_list_def)
  have s: "calculateStyleSimilarity (createNewUserProfile a t1) (createNewUserProfile b t2) = Num 0"
    by (simp add: calculateStyleSimilarity_def createNewUserProfile_def object_keys_def
        js_set_list_def)
  show ?thesis
    by (simp add: userSimilarity_def calculatePriceSimilarity_new_profiles c b s)
qed

text \<open>
  C1. The claim is that the similarity of any two profiles lies between 0 and 1 and is
  never \<^verbatim>\<open>NaN\<close>, the initial price range \<^verbatim>\<open>{min: 0, max: Infinity}\<close> included. For two
  users the store has not seen, both profiles are new, the overlap and the union span of
  their price ranges are both infinite, the guard \<^verbatim>\<open>totalRange > 0\<close> lets the division
  through, and the similarity is \<^verbatim>\<open>NaN\<close>. The same holds for any two new profiles.
\<close>

theorem similarity_of_new_profiles_is_NaN:
  "fst (calculateUserSimilarity [] 0 ''alice'' ''bob'') = NaN \<and>
   userSimilarity (createNewUserProfile a t1) (createNewUserProfile b t2) = NaN \<and>
   \<not> js_le (Num 0) (userSimilarity (createNewUserProfile a t1) (createNewUserProfile b t2))"
  by (simp add: calculateUserSimilarity_fst getUserProfile_def userSimilarity_new_profiles)

text \<open>
  C5. The claim is that the similarity of A and B equals the similarity of B and A. For
  two users the store has not seen, the first call returns \<^verbatim>\<open>NaN\<close>, and so does the
  call with the users exchanged, on the store the first call leaves; \<^verbatim>\<open>NaN\<close> equals
  nothing, so the two results are not equal. The cause is the division of C1.
\<close>

theorem similarity_of_new_profiles_is_not_equal_to_itself:
  "fst (calculateUserSimilarity [] 0 ''alice'' ''bob'') = NaN \<and>
   fst (calculateUserSimilarity (snd (calculateUserSimilarity [] 0 ''alice'' ''bob'')) 0
          ''bob'' ''alice'') = NaN \<and>
   \<not> js_equals
       (fst (calculateUserSimilarity [] 0 ''alice'' ''bob''))
       (fst (calculateUserSimilarity (snd (calculateUserSimilarity [] 0 ''alice'' ''bob'')) 0
               ''bob'' ''alice''))"
proof -
  have a: "fst (calculateUserSimilarity [] 0 ''alice'' ''bob'') = NaN"
    by (simp add: calculateUserSimilarity_fst getUserProfile_def userSimilarity_new_profiles)
  have s: "snd (calculateUserSimilarity [] 0 ''alice'' ''bob'')
      = [(''alice'', createNewUserProfile ''alice'' 0), (''bob'', createNewUserProfile ''bob'' 0)]"
    by (simp add: calculateUserSimilarity_def getUserProfile_def)
  have b: "fst (calculateUserSimilarity (snd (calculateUserSimilarity [] 0 ''alice'' ''bob'')) 0
          ''bob'' ''alice'') = NaN"
    by (simp add: s calculateUserSimilarity_fst getUserProfile_def userSimilarity_new_profiles)
  show ?thesis
    by (simp add: a b js_equals_def)
qed

section \<open>The diversity filter and the hybrid ranking\<close>

text \<open>
  C3. The claim is that the first pass admits a product only while fewer than
  \<open>\<lceil>limit \<times> diversityFactor\<rceil>\<close> products of its category are selected. The source counts
  the category in \<^verbatim>\<open>usedCategories\<close>, a \<^verbatim>\<open>Set\<close>, where it occurs at most once, so with a
  cap of two or more nothing is ever turned away. Six candidates, three of them jackets
  first, and a limit of 4 (cap 2): the first pass alone fills the four slots and puts
  three jackets into the output, although shoes, bags and hats were there to take.
\<close>

theorem applyDiversityFilter_exceeds_cap:
  "\<lceil>real (4::nat) * diversityFactor (recommendations defaultConfig)\<rceil> = 2 \<and>
   map (\<lambda>r. product_category (fst (snd r)))
     (diversityFirstPass defaultConfig 4
        (enumerate 0
          [(plain_product 1 ''jackets'', 6), (plain_product 2 ''jackets'', 5),
           (plain_product 3 ''jackets'', 4), (plain_product 4 ''shoes'', 3),
           (plain_product 5 ''bags'', 2), (plain_product 6 ''hats'', 1)]) [] [])
     = [Some ''jackets'', Some ''jackets'', Some ''jackets'', Some ''shoes''] \<and>
   map (\<lambda>r. product_category (fst r))
     (applyDiversityFilter defaultConfig
        [(plain_product 1 ''jackets'', 6), (plain_product 2 ''jackets'', 5),
         (plain_product 3 ''jackets'', 4), (plain_product 4 ''shoes'', 3),
         (plain_product 5 ''bags'', 2), (plain_product 6 ''hats'', 1)] 4)
     = [Some ''jackets'', Some ''jackets'', Some ''jackets'', Some ''shoes'']"
  by (simp add: applyDiversityFilter_def defaultConfig_def plain_product_def enumerate_eq_zip
      set_add_def upt_rec Let_def)

lemma distinct_keys_fold_update:
  "distinct (map fst m) \<Longrightarrow>
     distinct (map fst (fold (\<lambda>e m. AList.update (k e) (v e m) m) xs m))"
  by (induction xs arbitrary: m) (simp_all add: distinct_update)

lemma distinct_keys_addRankScores:
  "distinct (map fst m) \<Longrightarrow> distinct (map fst (addRankScores w recs m))"
  unfolding addRankScores_def Let_def split_beta
  by (rule distinct_keys_fold_update)

lemma find_product_id:
  "find_product products (Some pid) = Some prd \<Longrightarrow> product_id prd = pid"
  by (auto simp: find_product_def find_Some_iff)

lemma distinct_ids_map_filter:
  assumes "distinct (map fst xs)"
  shows "distinct (map (\<lambda>r. product_id (fst r))
           (List.map_filter (\<lambda>(pid, score). map_option (\<lambda>prd. (prd, score)) (find_product products (Some pid))) xs))
        \<and> (\<lambda>r. product_id (fst r)) ` set (List.map_filter (\<lambda>(pid, score). map_option (\<lambda>prd. (prd, score)) (find_product products (Some pid))) xs)
            \<subseteq> fst ` set xs"
  using assms
proof (induction xs)
  case Nil
  then show ?case by (simp add: List.map_filter_simps)
next
  case (Cons e xs)
  obtain pid score where e: "e = (pid, score)" by (cases e)
  show ?case
  proof (cases "find_product products (Some pid)")
    case None
    with Cons e show ?thesis by (auto simp: List.map_filter_simps)
  next
    case (Some prd)
    then have "product_id prd = pid" by (rule find_product_id)
    with Cons e Some show ?thesis by (auto simp: List.map_filter_simps)
  qed
qed

lemma firstPass_distinct:
  "distinct (map fst (acc @ xs)) \<Longrightarrow>
     distinct (map fst (diversityFirstPass cfg limit xs acc used))"
proof (induction xs arbitrary: acc used)
  case Nil
  then show ?case by simp
next
  case (Cons r xs)
  from Cons.prems have a: "distinct (map fst ((acc @ [r]) @ xs))" by simp
  from Cons.prems have b: "distinct (map fst (acc @ xs))" by simp
  from Cons.prems have c: "distinct (map fst acc)" by simp
  show ?case
    using Cons.IH [OF a] Cons.IH [OF b] c by (simp add: Let_def)
qed

lemma firstPass_subset:
  "set (diversityFirstPass cfg limit xs acc used) \<subseteq> set acc \<union> set xs"
proof (induction xs arbitrary: acc used)
  case Nil
  then show ?case by simp
next
  case (Cons r xs)
  show ?case
    using Cons.IH [of "acc @ [r]"] Cons.IH [of acc] by (auto simp: Let_def)
qed

lemma secondPass_distinct:
  "distinct (map fst acc) \<Longrightarrow> distinct (map fst (diversitySecondPass limit xs acc))"
  by (induction xs arbitrary: acc) auto

lemma secondPass_subset:
  "set (diversitySecondPass limit xs acc) \<subseteq> set acc \<union> set xs"
proof (induction xs arbitrary: acc)
  case Nil
  then show ?case by simp
next
  case (Cons r xs)
  show ?case
    using Cons.IH [of "acc @ [r]"] Cons.IH [of acc] by auto
qed

lemma inj_on_tagged:
  assumes "distinct (map f xs)"
  shows "inj_on (\<lambda>t. f (snd t)) (set (enumerate 0 xs))"
proof (rule inj_onI)
  fix a b
  assume a: "a \<in> set (enumerate 0 xs)" and b: "b \<in> set (enumerate 0 xs)"
    and eq: "f (snd a) = f (snd b)"
  from a have a': "fst a < length xs" "snd a = xs ! fst a"
    by (auto simp: in_set_enumerate_eq)
  from b have b': "fst b < length xs" "snd b = xs ! fst b"
    by (auto simp: in_set_enumerate_eq)
  from eq a' b' have "map f xs ! fst a = map f xs ! fst b" by simp
  moreover from a' b' have "fst a < length (map f xs)" "fst b < length (map f xs)" by simp_all
  ultimately have "fst a = fst b"
    using assms by (simp only: nth_eq_iff_index_eq)
  with a' b' show "a = b" by (simp add: prod_eq_iff)
qed

lemma applyDiversityFilter_length: "length (applyDiversityFilter cfg recs limit) \<le> limit"
  by (simp add: applyDiversityFilter_def Let_def)

lemma applyDiversityFilter_distinct:
  assumes "distinct (map f recs)"
  shows "distinct (map f (applyDiversityFilter cfg recs limit))"
proof (cases "length recs \<le> limit")
  case True
  with assms show ?thesis by (simp add: applyDiversityFilter_def)
next
  case False
  define tagged where "tagged = enumerate 0 recs"
  define d1 where "d1 = diversityFirstPass cfg limit tagged [] []"
  define d2 where "d2 = diversitySecondPass limit tagged d1"
  have "distinct (map fst tagged)" by (simp add: tagged_def)
  then have "distinct (map fst d1)"
    unfolding d1_def using firstPass_distinct [of "[]" tagged cfg limit "[]"] by simp
  then have dist: "distinct (map fst d2)"
    unfolding d2_def by (rule secondPass_distinct)
  have "set d1 \<subseteq> set tagged"
    unfolding d1_def using firstPass_subset [of cfg limit tagged "[]" "[]"] by simp
  then have sub: "set d2 \<subseteq> set tagged"
    unfolding d2_def using secondPass_subset [of limit tagged d1] by auto
  have "inj_on (\<lambda>t. f (snd t)) (set tagged)"
    unfolding tagged_def using assms by (rule inj_on_tagged)
  then have "inj_on (\<lambda>t. f (snd t)) (set d2)"
    using sub by (rule inj_on_subset)
  moreover from dist have "distinct d2" by (simp add: distinct_map)
  ultimately have "distinct (map (\<lambda>t. f (snd t)) d2)"
    by (simp add: distinct_map)
  then have "distinct (take limit (map (\<lambda>t. f (snd t)) d2))"
    by (rule distinct_take)
  then have "distinct (map f (map snd (take limit d2)))"
    by (simp add: take_map o_def)
  with False show ?thesis
    by (simp add: applyDiversityFilter_def Let_def tagged_def d1_def d2_def)
qed

text \<open>
  C4. For every configuration, store, user, candidate list and limit,
  \<^verbatim>\<open>getPersonalizedRecommendations\<close> returns at most \<open>limit\<close> products, and no product
  id occurs twice among them.
\<close>

theorem getPersonalizedRecommendations_bounded_distinct:
  "length (fst (getPersonalizedRecommendations cfg st now uid products limit)) \<le> limit \<and>
   distinct (map product_id (fst (getPersonalizedRecommendations cfg st now uid products limit)))"
proof -
  define collab where "collab = fst (getCollaborativeRecommendations cfg st now uid products (limit * 2))"
  define st1 where "st1 = snd (getCollaborativeRecommendations cfg st now uid products (limit * 2))"
  define content where "content = fst (getContentBasedRecommendations st1 now uid products (limit * 2))"
  define scores where "scores = addRankScores (1 - hybridWeight (recommendations cfg)) content
      (addRankScores (hybridWeight (recommendations cfg)) collab [])"
  define sortedProducts where "sortedProducts =
      List.map_filter (\<lambda>(pid, score). map_option (\<lambda>prd. (prd, score)) (find_product products (Some pid)))
        (js_sort (\<lambda>a b. Num (snd b - snd a)) scores)"
  have res: "fst (getPersonalizedRecommendations cfg st now uid products limit)
      = map fst (applyDiversityFilter cfg sortedProducts limit)"
    by (simp add: getPersonalizedRecommendations_def Let_def split_beta collab_def st1_def
        content_def scores_def sortedProducts_def)
  have "distinct (map fst scores)"
    unfolding scores_def by (intro distinct_keys_addRankScores) simp
  then have "distinct (map fst (js_sort (\<lambda>a b. Num (snd b - snd a)) scores))"
    by (simp add: distinct_map_js_sort)
  then have "distinct (map (\<lambda>r. product_id (fst r)) sortedProducts)"
    unfolding sortedProducts_def using distinct_ids_map_filter by blast
  then have "distinct (map (\<lambda>r. product_id (fst r)) (applyDiversityFilter cfg sortedProducts limit))"
    by (rule applyDiversityFilter_distinct)
  then have "distinct (map product_id (map fst (applyDiversityFilter cfg sortedProducts limit)))"
    by (simp add: o_def)
  moreover have "length (map fst (applyDiversityFilter cfg sortedProducts limit)) \<le> limit"
    by (simp add: applyDiversityFilter_length)
  ultimately show ?thesis by (simp only: res simp_thms)
qed

section \<open>Plain objects\<close>

lemma map_of_insert_index:
  "k \<notin> set (map fst m) \<Longrightarrow> map_of (insert_index n k v m) = (map_of m)(k \<mapsto> v)"
proof (induction m)
  case Nil
  then show ?case by simp
next
  case (Cons e m)
  then have "k \<noteq> fst e" and "k \<notin> set (map fst m)" by auto
  with Cons.IH show ?case
    by (cases e) (auto simp: fun_eq_iff split: option.splits)
qed

lemma map_of_object_set: "map_of (object_set k v m) = (map_of m)(k \<mapsto> v)"
proof (cases "k \<in> set (map fst m)")
  case True
  then show ?thesis by (simp add: object_set_def update_conv')
next
  case False
  then have "map_of m k = None" by (simp add: map_of_eq_None_iff)
  with False show ?thesis
    by (auto simp: object_set_def map_of_insert_index fun_eq_iff map_add_def split: option.splits)
qed

lemma set_insert_index: "set (insert_index n k v m) = insert (k, v) (set m)"
  by (induction m) (auto split: option.splits)

lemma set_object_set: "set (object_set k v m) \<subseteq> insert (k, v) (set m)"
proof -
  have "set (AList.update k v m) \<subseteq> insert (k, v) (set m)"
    by (induction m) auto
  then show ?thesis
    by (auto simp: object_set_def set_insert_index split: option.splits)
qed

lemma js_get_js_set:
  "js_get (js_set k v obj) k' =
     (if k = ''__proto__'' then js_get obj k' else if k' = k then v else js_get obj k')"
  by (simp add: js_get_def js_set_def map_of_object_set)

lemma set_js_set: "set (js_set k v obj) \<subseteq> insert (k, v) (set obj)"
  using set_object_set [of k v obj] by (auto simp: js_set_def)

lemma plain_key_not_proto: "plain_key k \<Longrightarrow> k \<noteq> ''__proto__''"
  by (auto simp: plain_key_def object_prototype_keys_def)

lemma js_get_plain:
  "plain_key k \<Longrightarrow> js_get obj k = (case map_of obj k of Some v \<Rightarrow> v | None \<Rightarrow> Undefined)"
  using plain_key_not_proto [of k] by (simp add: js_get_def plain_key_def)

lemma map_of_numbers: "map_of (numbers m) k = map_option (\<lambda>v. Number (Num v)) (map_of m k)"
  by (induction m) (auto simp: numbers_def)

text \<open>For a name that is not inherited, a weight of the configuration is the number in
  the table, or the default when the table has none or has zero.\<close>

lemma weight_plain:
  "plain_key k \<Longrightarrow>
     js_or (js_get (numbers m) k) (Number (Num d)) = Number (Num (or_default (map_of m k) d))"
  by (simp add: js_get_plain map_of_numbers js_or_def or_default_def split: option.splits)

lemma weight_inherited:
  "k \<in> set object_prototype_keys \<Longrightarrow> map_of m k = None \<Longrightarrow>
     js_or (js_get (numbers m) k) (Number (Num d)) = Obj"
  by (simp add: js_get_def map_of_numbers js_or_def)

section \<open>Recording an interaction: what a step changes\<close>

lemma frame_updateBrandAffinity:
  "categoryAffinities (updateBrandAffinity cfg p b t) = categoryAffinities p"
  "behaviorHistory (updateBrandAffinity cfg p b t) = behaviorHistory p"
  "priceRange (updateBrandAffinity cfg p b t) = priceRange p"
  "preferredPriceRange (updateBrandAffinity cfg p b t) = preferredPriceRange p"
  "purchaseHistory (updateBrandAffinity cfg p b t) = purchaseHistory p"
  by (simp_all add: updateBrandAffinity_def Let_def)

lemma frame_updateCategoryAffinity:
  "behaviorHistory (updateCategoryAffinity cfg p c t) = behaviorHistory p"
  "priceRange (updateCategoryAffinity cfg p c t) = priceRange p"
  "preferredPriceRange (updateCategoryAffinity cfg p c t) = preferredPriceRange p"
  "purchaseHistory (updateCategoryAffinity cfg p c t) = purchaseHistory p"
  by (simp_all add: updateCategoryAffinity_def Let_def)

lemma frame_updatePricePreferences:
  "categoryAffinities (updatePricePreferences p pr) = categoryAffinities p"
  "behaviorHistory (updatePricePreferences p pr) = behaviorHistory p"
  "purchaseHistory (updatePricePreferences p pr) = purchaseHistory p"
  by (simp_all add: updatePricePreferences_def Let_def)

lemma frame_updateStyleProfile:
  "categoryAffinities (updateStyleProfile p s t) = categoryAffinities p"
  "behaviorHistory (updateStyleProfile p s t) = behaviorHistory p"
  "priceRange (updateStyleProfile p s t) = priceRange p"
  "preferredPriceRange (updateStyleProfile p s t) = preferredPriceRange p"
  "purchaseHistory (updateStyleProfile p s t) = purchaseHistory p"
  by (simp_all add: updateStyleProfile_def Let_def)

lemma frame_updateConversionMetrics:
  "categoryAffinities (updateConversionMetrics clk p i) = categoryAffinities p"
  "behaviorHistory (updateConversionMetrics clk p i) = behaviorHistory p"
  "priceRange (updateConversionMetrics clk p i) = priceRange p"
  "preferredPriceRange (updateConversionMetrics clk p i) = preferredPriceRange p"
  by (simp_all add: updateConversionMetrics_def Let_def)

lemmas frames = frame_updateBrandAffinity frame_updateCategoryAffinity
  frame_updatePricePreferences frame_updateStyleProfile frame_updateConversionMetrics

lemma categoryAffinities_updateProfile:
  "categoryAffinities (updateProfile cfg clk p i) =
     (if str_truthy (category i)
      then categoryAffinities (updateCategoryAffinity cfg p (the (category i)) (type i))
      else categoryAffinities p)"
proof -
  have "categoryAffinities (updateCategoryAffinity cfg (q\<lparr>behaviorHistory := h\<rparr>) c t)
      = categoryAffinities (updateCategoryAffinity cfg q c t)" for q h c t
    by (simp add: updateCategoryAffinity_def Let_def)
  then show ?thesis
    unfolding updateProfile_def Let_def
    by (simp add: frames if_distrib [of categoryAffinities] cong: if_cong)
qed

text \<open>\<^verbatim>\<open>updateCategoryAffinity\<close> on every input: the entry of the category becomes
  \<^verbatim>\<open>(old || 0) + weight * categoryWeight\<close>, in the arithmetic of the language, and no
  other entry changes; under \<^verbatim>\<open>__proto__\<close> nothing changes at all.\<close>

lemma js_get_updateCategoryAffinity:
  "js_get (categoryAffinities (updateCategoryAffinity cfg p cat t)) k =
     (if k = cat \<and> cat \<noteq> ''__proto__''
      then js_plus (js_or (js_get (categoryAffinities p) cat) (Number (Num 0)))
             (Number (js_times
                (js_or (js_get (numbers (clickWeights (behaviorAnalysis cfg))) t) (Number (Num 1)))
                (js_or (js_get (numbers (categoryWeights (userProfiling cfg))) cat) (Number (Num 1)))))
      else js_get (categoryAffinities p) k)"
  by (simp add: updateCategoryAffinity_def Let_def js_get_js_set js_or_def)

lemma js_or_plus_number:
  assumes "js_or v (Number (Num 0)) = Number (Num a)"
  shows "js_or (js_plus (js_or v (Number (Num 0))) (Number (Num b))) (Number (Num 0))
           = Number (Num (a + b))"
  using assms by (simp add: js_or_def)

lemma categoryAffinity_updateProfile:
  assumes "category i = Some c" and "c \<noteq> []" and "plain_key c" and "plain_key (type i)"
    and "categoryAffinity p c = Number (Num a)"
  shows "categoryAffinity (updateProfile cfg clk p i) c =
     Number (Num (a + or_default (map_of (clickWeights (behaviorAnalysis cfg)) (type i)) 1
                      * or_default (map_of (categoryWeights (userProfiling cfg)) c) 1))"
proof -
  define b where "b = or_default (map_of (clickWeights (behaviorAnalysis cfg)) (type i)) 1
                      * or_default (map_of (categoryWeights (userProfiling cfg)) c) 1"
  have w: "js_times
             (js_or (js_get (numbers (clickWeights (behaviorAnalysis cfg))) (type i)) (Number (Num 1)))
             (js_or (js_get (numbers (categoryWeights (userProfiling cfg))) c) (Number (Num 1)))
           = Num b"
    by (simp add: weight_plain [OF assms(3)] weight_plain [OF assms(4)] js_times_def b_def)
  have v: "js_or (js_get (categoryAffinities p) c) (Number (Num 0)) = Number (Num a)"
    using assms(5) by (simp add: categoryAffinity_def)
  have "categoryAffinity (updateProfile cfg clk p i) c
      = js_or (js_plus (js_or (js_get (categoryAffinities p) c) (Number (Num 0))) (Number (Num b)))
          (Number (Num 0))"
    using assms(1,2) plain_key_not_proto [OF assms(3)]
    by (simp add: categoryAffinity_def categoryAffinities_updateProfile str_truthy_def
        js_get_updateCategoryAffinity w)
  also have "\<dots> = Number (Num (a + b))"
    using v by (rule js_or_plus_number)
  finally show ?thesis by (simp add: b_def)
qed

lemma categoryAffinities_other_category:
  assumes "category i \<noteq> Some c"
  shows "js_get (categoryAffinities (updateProfile cfg clk p i)) c = js_get (categoryAffinities p) c"
  using assms
  by (auto simp: categoryAffinities_updateProfile str_truthy_def
      js_get_updateCategoryAffinity split: option.splits)

lemma fst_updateUserProfile:
  "fst (updateUserProfile cfg st clk uid i)
     = updateProfile cfg clk (fst (getUserProfile st (now_create clk) uid)) i"
  by (simp add: updateUserProfile_def split_beta Let_def)

lemma last_history:
  "last (behaviorHistory (updateProfile cfg clk p i)) = historyEntry cfg clk i"
proof -
  have "behaviorHistory (updateProfile cfg clk p i) =
     (if length (behaviorHistory p @ [historyEntry cfg clk i]) > maxHistoryItems (userProfiling cfg)
      then slice_last (maxHistoryItems (userProfiling cfg)) (behaviorHistory p @ [historyEntry cfg clk i])
      else behaviorHistory p @ [historyEntry cfg clk i])"
    unfolding updateProfile_def Let_def
    by (simp add: frames if_distrib [of behaviorHistory] cong: if_cong)
  moreover have "n < length (xs @ [e]) \<Longrightarrow> last (slice_last n (xs @ [e])) = e" for n and xs :: "history_entry list" and e
    by (simp add: slice_last_def)
  ultimately show ?thesis by simp
qed

lemma weight_historyEntry:
  "weight (historyEntry cfg clk i) = calculateInteractionWeight cfg clk i (now_update clk)"
  by (simp add: historyEntry_def)

lemma timestamp_historyEntry:
  "timestamp (historyEntry cfg clk i) = Some (now_update clk)"
  by (simp add: historyEntry_def)

lemma nonnegative_table_js_set:
  "nonnegative_table m \<Longrightarrow> nonnegative_number v \<Longrightarrow> nonnegative_table (js_set k v m)"
  using set_js_set [of k v m] by (auto simp: nonnegative_table_def list_all_iff)

lemma nonnegative_or_default:
  "nonnegative m \<Longrightarrow> 0 \<le> d \<Longrightarrow> 0 \<le> or_default (map_of m k) d"
  by (induction m) (auto simp: nonnegative_def or_default_def)

lemma nonnegative_table_reading:
  assumes "nonnegative_table m" and "plain_key c"
  shows "\<exists>a\<ge>0. js_or (js_get m c) (Number (Num 0)) = Number (Num a)"
proof (cases "map_of m c")
  case None
  with assms(2) show ?thesis by (simp add: js_get_plain js_or_def)
next
  case (Some v)
  then have "(c, v) \<in> set m" by (rule map_of_SomeD)
  with assms(1) have "nonnegative_number v"
    by (auto simp: nonnegative_table_def list_all_iff)
  then obtain a where "v = Number (Num a)" and "0 \<le> a"
    by (cases v rule: nonnegative_number.cases) simp_all
  with Some assms(2) show ?thesis by (auto simp: js_get_plain js_or_def)
qed

lemma nonnegative_updateCategoryAffinity:
  assumes "nonnegative (clickWeights (behaviorAnalysis cfg))"
    and "nonnegative (categoryWeights (userProfiling cfg))"
    and "nonnegative_table (categoryAffinities p)"
    and "plain_key c" and "plain_key t"
  shows "nonnegative_table (categoryAffinities (updateCategoryAffinity cfg p c t))"
proof -
  define b where "b = or_default (map_of (clickWeights (behaviorAnalysis cfg)) t) 1
                      * or_default (map_of (categoryWeights (userProfiling cfg)) c) 1"
  have b0: "0 \<le> b"
    unfolding b_def using assms(1,2) by (simp add: nonnegative_or_default)
  have w: "js_times
             (js_or (js_get (numbers (clickWeights (behaviorAnalysis cfg))) t) (Number (Num 1)))
             (js_or (js_get (numbers (categoryWeights (userProfiling cfg))) c) (Number (Num 1)))
           = Num b"
    by (simp add: weight_plain [OF assms(4)] weight_plain [OF assms(5)] js_times_def b_def)
  define affs where "affs = (if \<not> truthy (js_get (categoryAffinities p) c)
                  then js_set c (Number (Num 0)) (categoryAffinities p)
                  else categoryAffinities p)"
  have a: "nonnegative_table affs"
    unfolding affs_def using assms(3) by (simp add: nonnegative_table_js_set)
  obtain a0 where a0: "0 \<le> a0"
    and r: "js_or (js_get (categoryAffinities p) c) (Number (Num 0)) = Number (Num a0)"
    using nonnegative_table_reading [OF assms(3,4)] by blast
  have g: "js_get affs c = Number (Num a0)"
    using r plain_key_not_proto [OF assms(4)]
    by (auto simp: affs_def js_get_js_set js_or_def split: if_splits)
  have "nonnegative_table (js_set c (js_plus (js_get affs c) (Number (Num b))) affs)"
    using a a0 b0 by (intro nonnegative_table_js_set) (simp_all add: g)
  then show ?thesis
    by (simp add: updateCategoryAffinity_def Let_def affs_def w)
qed

lemma step_nonnegative:
  assumes "nonnegative (clickWeights (behaviorAnalysis cfg))"
    and "nonnegative (categoryWeights (userProfiling cfg))"
    and "nonnegative_table (categoryAffinities p)"
    and "plain_interaction i"
  shows "nonnegative_table (categoryAffinities (updateProfile cfg clk p i))"
proof (cases "str_truthy (category i)")
  case False
  with assms(3) show ?thesis by (simp add: categoryAffinities_updateProfile)
next
  case True
  then obtain c where c: "category i = Some c" by (auto simp: str_truthy_def split: option.splits)
  with assms(4) have "plain_key c" and "plain_key (type i)"
    by (simp_all add: plain_interaction_def)
  with True c show ?thesis
    by (simp add: categoryAffinities_updateProfile
        nonnegative_updateCategoryAffinity [OF assms(1,2,3)])
qed

lemma step_monotone:
  assumes "nonnegative (clickWeights (behaviorAnalysis cfg))"
    and "nonnegative (categoryWeights (userProfiling cfg))"
    and "nonnegative_table (categoryAffinities p)"
    and "plain_interaction i" and "plain_key c"
  shows "js_le (to_number (categoryAffinity p c))
               (to_number (categoryAffinity (updateProfile cfg clk p i) c))"
proof -
  obtain a where a: "0 \<le> a" and r: "categoryAffinity p c = Number (Num a)"
    using nonnegative_table_reading [OF assms(3,5)] by (auto simp: categoryAffinity_def)
  show ?thesis
  proof (cases "category i = Some c \<and> c \<noteq> []")
    case True
    with assms(4) have t: "plain_key (type i)" by (simp add: plain_interaction_def)
    have "0 \<le> or_default (map_of (clickWeights (behaviorAnalysis cfg)) (type i)) 1
           * or_default (map_of (categoryWeights (userProfiling cfg)) c) 1"
      using assms(1,2) by (simp add: nonnegative_or_default)
    then show ?thesis
      using True categoryAffinity_updateProfile [OF _ _ assms(5) t r, of cfg clk]
      by (simp add: r)
  next
    case False
    then have "js_get (categoryAffinities (updateProfile cfg clk p i)) c = js_get (categoryAffinities p) c"
      by (auto simp: categoryAffinities_updateProfile str_truthy_def
        js_get_updateCategoryAffinity split: option.splits)
    then have "categoryAffinity (updateProfile cfg clk p i) c = categoryAffinity p c"
      by (simp add: categoryAffinity_def)
    then show ?thesis by (simp add: r)
  qed
qed

lemma profiles_run_nth_0: "profiles_run cfg p steps ! 0 = p"
  by (cases steps) auto

lemma profiles_run_nth_Suc:
  "k < length steps \<Longrightarrow>
     profiles_run cfg p steps ! Suc k
       = updateProfile cfg (fst (steps ! k)) (profiles_run cfg p steps ! k) (snd (steps ! k))"
proof (induction steps arbitrary: p k)
  case Nil
  then show ?case by simp
next
  case (Cons s steps)
  obtain clk i where s: "s = (clk, i)" by (cases s)
  show ?case
  proof (cases k)
    case 0
    then show ?thesis by (simp add: s profiles_run_nth_0)
  next
    case (Suc j)
    with Cons.prems have "j < length steps" by simp
    from Cons.IH [OF this] show ?thesis by (simp add: s Suc)
  qed
qed

lemma profiles_run_nonnegative:
  assumes "nonnegative (clickWeights (behaviorAnalysis cfg))"
    and "nonnegative (categoryWeights (userProfiling cfg))"
    and "list_all plain_interaction (map snd steps)"
  shows "nonnegative_table (categoryAffinities p) \<Longrightarrow> k \<le> length steps \<Longrightarrow>
     nonnegative_table (categoryAffinities (profiles_run cfg p steps ! k))"
proof (induction k)
  case 0
  then show ?case by (simp add: profiles_run_nth_0)
next
  case (Suc k)
  then have "k < length steps" by simp
  with assms(3) have "plain_interaction (snd (steps ! k))"
    by (simp add: list_all_length)
  with Suc show ?case
    by (simp add: profiles_run_nth_Suc step_nonnegative [OF assms(1,2)])
qed

lemma historyEntry_timestamp_irrelevant:
  "historyEntry cfg clk (i\<lparr>timestamp := t\<rparr>) = historyEntry cfg clk i"
  by (simp add: historyEntry_def calculateInteractionWeight_def calculateContextWeight_def)

lemma updateConversionMetrics_timestamp_irrelevant:
  "updateConversionMetrics clk p (i\<lparr>timestamp := t\<rparr>) = updateConversionMetrics clk p i"
  by (simp add: updateConversionMetrics_def)

lemma fields_timestamp_irrelevant:
  "type (i\<lparr>timestamp := t\<rparr>) = type i"
  "category (i\<lparr>timestamp := t\<rparr>) = category i"
  "brand (i\<lparr>timestamp := t\<rparr>) = brand i"
  "price (i\<lparr>timestamp := t\<rparr>) = price i"
  "style (i\<lparr>timestamp := t\<rparr>) = style i"
  "tags (i\<lparr>timestamp := t\<rparr>) = tags i"
  by simp_all

lemma updateProfile_timestamp_irrelevant:
  "updateProfile cfg clk p (i\<lparr>timestamp := t\<rparr>) = updateProfile cfg clk p i"
  unfolding updateProfile_def
  by (simp only: historyEntry_timestamp_irrelevant updateConversionMetrics_timestamp_irrelevant
      fields_timestamp_irrelevant)

lemma calculateTimeWeight_recent:
  "now - ts < dayMs \<Longrightarrow> calculateTimeWeight cfg now ts = recent (timeWeights (behaviorAnalysis cfg))"
  by (simp add: calculateTimeWeight_def)

section \<open>The fixtures\<close>

lemma getUserProfile_empty: "fst (getUserProfile [] now uid) = createNewUserProfile uid now"
  by (simp add: getUserProfile_def)

lemma plain_key_examples:
  "plain_key ''view''" "plain_key ''clothing''" "plain_key ''shoes''"
  by (simp_all add: plain_key_def object_prototype_keys_def)

lemma categoryAffinity_new:
  "plain_key c \<Longrightarrow> categoryAffinity (createNewUserProfile u t) c = Number (Num 0)"
  by (simp add: categoryAffinity_def createNewUserProfile_def js_get_plain js_or_def)

lemma clickWeight_view: "or_default (map_of (clickWeights (behaviorAnalysis defaultConfig)) ''view'') 1 = 1"
  by (simp add: defaultConfig_def or_default_def)

lemma baseWeight_view:
  "js_or (js_get (numbers (clickWeights (behaviorAnalysis defaultConfig))) ''view'') (Number (Num 1))
     = Number (Num 1)"
  by (simp add: weight_plain plain_key_examples clickWeight_view)

lemma categoryWeight_clothing:
  "or_default (map_of (categoryWeights (userProfiling defaultConfig)) ''clothing'') 1 = 1"
  by (simp add: defaultConfig_def or_default_def)

lemma categoryWeight_shoes:
  "or_default (map_of (categoryWeights (userProfiling defaultConfig)) ''shoes'') 1 = 9/10"
  by (simp add: defaultConfig_def or_default_def)

lemma view_of_fields:
  "type (view_of c) = ''view''" "category (view_of c) = Some c"
  "season (view_of c) = None" "timeOfDay (view_of c) = None"
  by (simp_all add: view_of_def)

lemma winter_season: "getCurrentSeason winter_clock = ''winter''"
  by (simp add: getCurrentSeason_def winter_clock_def)

lemma winter_timeWeight:
  "calculateTimeWeight defaultConfig (now_weight winter_clock) (now_update winter_clock) = 1"
  by (simp add: calculateTimeWeight_def winter_clock_def defaultConfig_def dayMs_def)

lemma winter_contextWeight:
  "calculateContextWeight winter_clock ((view_of ''clothing'')\<lparr>season := Some ''winter''\<rparr>) = 12/10"
  by (simp add: calculateContextWeight_def winter_season view_of_def str_truthy_def)

lemma plain_contextWeight:
  "calculateContextWeight clk ((view_of c)\<lparr>timestamp := t\<rparr>) = 1"
  by (simp add: calculateContextWeight_def view_of_def str_truthy_def)

lemma defaultConfig_nonnegative:
  "nonnegative (clickWeights (behaviorAnalysis defaultConfig))"
  "nonnegative (categoryWeights (userProfiling defaultConfig))"
  by (simp_all add: defaultConfig_def nonnegative_def)

text \<open>
  C2. The claim is that recording an interaction with a category raises the affinity of
  that category by the composite weight of the history entry (base, time and context
  weight multiplied) times the category's static weight. \<^verbatim>\<open>updateCategoryAffinity\<close> is
  handed the interaction type, not the weight, and looks the base weight up again. A view
  of clothing that names the current season is stored with weight 1.2, the static weight
  of clothing is 1, and the affinity goes from 0 to 1.
\<close>

theorem category_increment_is_not_stored_weight:
  "categoryAffinity (fst (getUserProfile [] (now_create winter_clock) ''u'')) ''clothing''
     = Number (Num 0) \<and>
   categoryAffinity
     (fst (updateUserProfile defaultConfig [] winter_clock ''u''
             ((view_of ''clothing'')\<lparr>season := Some ''winter''\<rparr>)))
     ''clothing'' = Number (Num 1) \<and>
   weight (last (behaviorHistory
        (fst (updateUserProfile defaultConfig [] winter_clock ''u''
                ((view_of ''clothing'')\<lparr>season := Some ''winter''\<rparr>)))))
     = Num (12/10) \<and>
   or_default (map_of (categoryWeights (userProfiling defaultConfig)) ''clothing'') 1 = 1 \<and>
   (1::real) - 0 \<noteq> 12/10 * 1"
proof -
  let ?i = "(view_of ''clothing'')\<lparr>season := Some ''winter''\<rparr>"
  let ?p = "createNewUserProfile ''u'' (now_create winter_clock)"
  have c: "category ?i = Some ''clothing''" and t: "type ?i = ''view''"
    by (simp_all add: view_of_def)
  have pt: "plain_key (type ?i)" by (simp add: t plain_key_examples)
  have n: "categoryAffinity ?p ''clothing'' = Number (Num 0)"
    by (simp add: categoryAffinity_new plain_key_examples)
  have a: "categoryAffinity (updateProfile defaultConfig winter_clock ?p ?i) ''clothing'' = Number (Num 1)"
    using categoryAffinity_updateProfile [OF c _ plain_key_examples(2) pt n, of defaultConfig winter_clock]
    by (simp add: t clickWeight_view categoryWeight_clothing)
  have b: "calculateInteractionWeight defaultConfig winter_clock ?i (now_update winter_clock) = Num (12/10)"
    unfolding calculateInteractionWeight_def Let_def winter_timeWeight winter_contextWeight t
      baseWeight_view by simp
  show ?thesis
    by (simp add: fst_updateUserProfile last_history weight_historyEntry getUserProfile_empty a b n
        categoryWeight_clothing)
qed

text \<open>
  C2, as the source has it: for every configuration, store, clock and interaction with a
  non-empty category, where neither the category nor the interaction type is a name that
  objects inherit and the affinity read before is a finite number, the affinity of that
  category rises by exactly the base weight of the interaction type times the static
  weight of the category.
\<close>

theorem updateUserProfile_category_increment:
  assumes "category i = Some c" and "c \<noteq> []"
    and "plain_key c" and "plain_key (type i)"
    and "categoryAffinity (fst (getUserProfile st (now_create clk) uid)) c = Number (Num a)"
  shows "categoryAffinity (fst (updateUserProfile cfg st clk uid i)) c
       = Number (Num (a + or_default (map_of (clickWeights (behaviorAnalysis cfg)) (type i)) 1
                          * or_default (map_of (categoryWeights (userProfiling cfg)) c) 1))"
  using assms by (simp add: fst_updateUserProfile categoryAffinity_updateProfile)

theorem updateUserProfile_category_increment_witness:
  "category (view_of ''shoes'') = Some ''shoes'' \<and> ''shoes'' \<noteq> [] \<and>
   plain_key ''shoes'' \<and> plain_key (type (view_of ''shoes'')) \<and>
   categoryAffinity (fst (getUserProfile [] (now_create winter_clock) ''u'')) ''shoes''
     = Number (Num 0) \<and>
   categoryAffinity (fst (updateUserProfile defaultConfig [] winter_clock ''u'' (view_of ''shoes''))) ''shoes''
     = Number (Num (9/10))"
proof -
  have n: "categoryAffinity (fst (getUserProfile [] (now_create winter_clock) ''u'')) ''shoes''
     = Number (Num 0)"
    by (simp add: getUserProfile_empty categoryAffinity_new plain_key_examples)
  have t: "plain_key (type (view_of ''shoes''))"
    by (simp add: view_of_fields plain_key_examples)
  show ?thesis
    using updateUserProfile_category_increment
          [OF view_of_fields(2) _ plain_key_examples(3) t n, of defaultConfig]
    by (simp add: view_of_fields n plain_key_examples clickWeight_view categoryWeight_shoes)
qed

text \<open>
  C6. The claim is that the time weight follows the age of the interaction's own
  timestamp, so that an interaction older than 24 hours is stored with a time weight
  below 1. \<^verbatim>\<open>calculateTimeWeight\<close> picks one of four values from the age of the
  timestamp it is given, but \<^verbatim>\<open>updateUserProfile\<close> overwrites the timestamp with its
  own clock reading and passes that reading on, so the age is that of the call. A plain
  view of clothing whose own timestamp is two days old has base weight 1 and context
  weight 1 and is stored with weight 1: its time weight is 1.
\<close>

theorem stored_time_weight_ignores_own_timestamp:
  "timestamp ((view_of ''clothing'')\<lparr>timestamp := Some (now_update winter_clock - 2 * dayMs)\<rparr>)
     = Some (now_update winter_clock - 2 * dayMs) \<and>
   or_default (map_of (clickWeights (behaviorAnalysis defaultConfig))
      (type ((view_of ''clothing'')\<lparr>timestamp := Some (now_update winter_clock - 2 * dayMs)\<rparr>))) 1 = 1 \<and>
   js_or (js_get (numbers (clickWeights (behaviorAnalysis defaultConfig)))
      (type ((view_of ''clothing'')\<lparr>timestamp := Some (now_update winter_clock - 2 * dayMs)\<rparr>)))
      (Number (Num 1)) = Number (Num 1) \<and>
   calculateContextWeight winter_clock
      ((view_of ''clothing'')\<lparr>timestamp := Some (now_update winter_clock - 2 * dayMs)\<rparr>) = 1 \<and>
   weight (last (behaviorHistory (fst (updateUserProfile defaultConfig [] winter_clock ''u''
      ((view_of ''clothing'')\<lparr>timestamp := Some (now_update winter_clock - 2 * dayMs)\<rparr>))))) = Num 1 \<and>
   \<not> calculateTimeWeight defaultConfig (now_weight winter_clock) (now_update winter_clock) < 1"
  by (simp add: fst_updateUserProfile last_history weight_historyEntry calculateInteractionWeight_def
      plain_contextWeight winter_timeWeight baseWeight_view clickWeight_view view_of_fields)

text \<open>
  What the source does with the time weight, for every input: the stored weight is the
  base weight times the time weight of the recording time itself, read against the clock
  when the weight is computed, times the context weight; the stored timestamp is the
  recording time; the interaction's own timestamp changes nothing; the time weight is one
  of the four configured values, and it is the \<^verbatim>\<open>recent\<close> one whenever less than 24
  hours pass between the two clock readings of the call.
\<close>

theorem recorded_weight_uses_recording_time:
  "weight (last (behaviorHistory (fst (updateUserProfile cfg st clk uid i))))
     = js_mul
         (js_mul
            (to_number (js_or (js_get (numbers (clickWeights (behaviorAnalysis cfg))) (type i))
                         (Number (Num 1))))
            (Num (calculateTimeWeight cfg (now_weight clk) (now_update clk))))
         (Num (calculateContextWeight clk i)) \<and>
   timestamp (last (behaviorHistory (fst (updateUserProfile cfg st clk uid i)))) = Some (now_update clk) \<and>
   fst (updateUserProfile cfg st clk uid (i\<lparr>timestamp := t\<rparr>)) = fst (updateUserProfile cfg st clk uid i) \<and>
   calculateTimeWeight cfg (now_weight clk) (now_update clk)
     \<in> {recent (timeWeights (behaviorAnalysis cfg)), week (timeWeights (behaviorAnalysis cfg)),
        month (timeWeights (behaviorAnalysis cfg)), older (timeWeights (behaviorAnalysis cfg))} \<and>
   (now_weight clk - now_update clk < dayMs \<longrightarrow>
      calculateTimeWeight cfg (now_weight clk) (now_update clk)
        = recent (timeWeights (behaviorAnalysis cfg)))"
proof -
  have "calculateTimeWeight cfg (now_weight clk) (now_update clk)
     \<in> {recent (timeWeights (behaviorAnalysis cfg)), week (timeWeights (behaviorAnalysis cfg)),
        month (timeWeights (behaviorAnalysis cfg)), older (timeWeights (behaviorAnalysis cfg))}"
    by (simp add: calculateTimeWeight_def Let_def)
  then show ?thesis
    by (simp add: fst_updateUserProfile last_history weight_historyEntry timestamp_historyEntry
        updateProfile_timestamp_irrelevant calculateTimeWeight_recent calculateInteractionWeight_def)
qed

theorem recorded_weight_uses_recording_time_example:
  "now_weight winter_clock - now_update winter_clock < dayMs \<and>
   weight (last (behaviorHistory (fst (updateUserProfile defaultConfig [] winter_clock ''u''
      ((view_of ''clothing'')\<lparr>timestamp := Some (now_update winter_clock - 2 * dayMs)\<rparr>))))) = Num 1 \<and>
   calculateTimeWeight defaultConfig (now_weight winter_clock) (now_update winter_clock) = 1"
proof -
  have h: "now_weight winter_clock - now_update winter_clock < dayMs"
    by (simp add: winter_clock_def dayMs_def)
  have r: "recent (timeWeights (behaviorAnalysis defaultConfig)) = 1"
    by (simp add: defaultConfig_def)
  show ?thesis
    using h recorded_weight_uses_recording_time [of defaultConfig "[]" winter_clock "''u''"
        "(view_of ''clothing'')\<lparr>timestamp := Some (now_update winter_clock - 2 * dayMs)\<rparr>" None]
    by (simp add: r plain_contextWeight baseWeight_view view_of_fields)
qed

lemma array_index_toString: "array_index ''toString'' = None"
  by (simp add: array_index_def digit_of_def)

text \<open>
  C9. The claim is that, from a new profile on, every entry of \<^verbatim>\<open>categoryAffinities\<close>
  stays at least zero. The table is a plain object, and the guard
  \<^verbatim>\<open>if (!profile.categoryAffinities[category])\<close> that starts a missing entry at 0 also
  finds what the object inherits. For a view of the category \<^verbatim>\<open>toString\<close> the guard sees
  a function, starts nothing, and \<^verbatim>\<open>+=\<close> concatenates: the table of the new profile
  then holds a string under \<^verbatim>\<open>toString\<close>, which is not at least zero.
\<close>

theorem inherited_category_stores_a_string:
  "categoryAffinities
     (fst (updateUserProfile defaultConfig [] winter_clock ''u'' (view_of ''toString'')))
     = [(''toString'', Text)] \<and>
   \<not> js_le (Num 0)
       (to_number (js_get (categoryAffinities
          (fst (updateUserProfile defaultConfig [] winter_clock ''u'' (view_of ''toString''))))
          ''toString''))"
proof -
  have "categoryAffinities
     (fst (updateUserProfile defaultConfig [] winter_clock ''u'' (view_of ''toString'')))
     = [(''toString'', Text)]"
    by (simp add: fst_updateUserProfile getUserProfile_empty categoryAffinities_updateProfile
        view_of_fields str_truthy_def updateCategoryAffinity_def createNewUserProfile_def
        js_get_def object_prototype_keys_def js_or_def js_times_def js_set_def object_set_def
        array_index_toString map_of_numbers defaultConfig_def Let_def)
  then show ?thesis by (simp add: js_get_def)
qed

text \<open>
  What holds of the affinities when no interaction names an inherited property as its
  type or category, for a configuration whose weights are at least zero: at every step
  of a session from a new profile every entry is a finite number that is at least zero,
  the affinity of a category does not decrease, and the entry of a category is left as
  it was when the interaction names another category or none.
\<close>

theorem categoryAffinities_nonnegative_monotone_for_plain_keys:
  assumes "nonnegative (clickWeights (behaviorAnalysis cfg))"
    and "nonnegative (categoryWeights (userProfiling cfg))"
    and "list_all plain_interaction (map snd steps)"
    and "k < length steps"
    and "plain_key c"
  shows "nonnegative_table (categoryAffinities (profiles_run cfg (createNewUserProfile uid t) steps ! k)) \<and>
         nonnegative_table (categoryAffinities (profiles_run cfg (createNewUserProfile uid t) steps ! Suc k)) \<and>
         js_le (to_number (categoryAffinity (profiles_run cfg (createNewUserProfile uid t) steps ! k) c))
               (to_number (categoryAffinity (profiles_run cfg (createNewUserProfile uid t) steps ! Suc k) c)) \<and>
         (category (snd (steps ! k)) \<noteq> Some c \<longrightarrow>
            js_get (categoryAffinities (profiles_run cfg (createNewUserProfile uid t) steps ! Suc k)) c
              = js_get (categoryAffinities (profiles_run cfg (createNewUserProfile uid t) steps ! k)) c)"
proof -
  have n0: "nonnegative_table (categoryAffinities (createNewUserProfile uid t))"
    by (simp add: createNewUserProfile_def nonnegative_table_def)
  have nk: "nonnegative_table (categoryAffinities (profiles_run cfg (createNewUserProfile uid t) steps ! k))"
    using profiles_run_nonnegative [OF assms(1,2,3) n0, of k] assms(4) by simp
  have ns: "nonnegative_table (categoryAffinities (profiles_run cfg (createNewUserProfile uid t) steps ! Suc k))"
    using profiles_run_nonnegative [OF assms(1,2,3) n0, of "Suc k"] assms(4) by simp
  have pi: "plain_interaction (snd (steps ! k))"
    using assms(3,4) by (simp add: list_all_length)
  show ?thesis
    using assms(4) nk ns
    by (simp add: profiles_run_nth_Suc step_monotone [OF assms(1,2) nk pi assms(5)]
        categoryAffinities_other_category)
qed

theorem categoryAffinities_nonnegative_monotone_for_plain_keys_example:
  "nonnegative (clickWeights (behaviorAnalysis defaultConfig)) \<and>
   nonnegative (categoryWeights (userProfiling defaultConfig)) \<and>
   list_all plain_interaction
     (map snd [(winter_clock, view_of ''clothing''), (winter_clock, view_of ''shoes'')]) \<and>
   (1::nat) < length [(winter_clock, view_of ''clothing''), (winter_clock, view_of ''shoes'')] \<and>
   plain_key ''clothing'' \<and>
   category (snd ([(winter_clock, view_of ''clothing''), (winter_clock, view_of ''shoes'')] ! 1))
     \<noteq> Some ''clothing'' \<and>
   categoryAffinities
     (profiles_run defaultConfig (createNewUserProfile ''u'' 0)
        [(winter_clock, view_of ''clothing''), (winter_clock, view_of ''shoes'')] ! Suc 1)
     = [(''clothing'', Number (Num 1)), (''shoes'', Number (Num (9/10)))] \<and>
   js_le (to_number (categoryAffinity
     (profiles_run defaultConfig (createNewUserProfile ''u'' 0)
        [(winter_clock, view_of ''clothing''), (winter_clock, view_of ''shoes'')] ! 1) ''clothing''))
     (to_number (categoryAffinity
     (profiles_run defaultConfig (createNewUserProfile ''u'' 0)
        [(winter_clock, view_of ''clothing''), (winter_clock, view_of ''shoes'')] ! Suc 1) ''clothing'')) \<and>
   js_get (categoryAffinities
     (profiles_run defaultConfig (createNewUserProfile ''u'' 0)
        [(winter_clock, view_of ''clothing''), (winter_clock, view_of ''shoes'')] ! Suc 1)) ''clothing''
   = js_get (categoryAffinities
     (profiles_run defaultConfig (createNewUserProfile ''u'' 0)
        [(winter_clock, view_of ''clothing''), (winter_clock, view_of ''shoes'')] ! 1)) ''clothing''"
proof -
  have k: "(1::nat) < length [(winter_clock, view_of ''clothing''), (winter_clock, view_of ''shoes'')]"
    by simp
  have c: "category (snd ([(winter_clock, view_of ''clothing''), (winter_clock, view_of ''shoes'')] ! 1))
     \<noteq> Some ''clothing''"
    by (simp add: view_of_def)
  have l: "list_all plain_interaction
     (map snd [(winter_clock, view_of ''clothing''), (winter_clock, view_of ''shoes'')])"
    by (simp add: plain_interaction_def view_of_fields plain_key_examples)
  have a1: "array_index ''clothing'' = None" and a2: "array_index ''shoes'' = None"
    by (simp_all add: array_index_def digit_of_def)
  have v: "categoryAffinities
     (profiles_run defaultConfig (createNewUserProfile ''u'' 0)
        [(winter_clock, view_of ''clothing''), (winter_clock, view_of ''shoes'')] ! Suc 1)
     = [(''clothing'', Number (Num 1)), (''shoes'', Number (Num (9/10)))]"
    by (simp add: categoryAffinities_updateProfile view_of_fields str_truthy_def
        updateCategoryAffinity_def createNewUserProfile_def js_get_def object_prototype_keys_def
        js_or_def js_times_def js_set_def object_set_def a1 a2 map_of_numbers defaultConfig_def
        Let_def)
  show ?thesis
    using categoryAffinities_nonnegative_monotone_for_plain_keys
            [OF defaultConfig_nonnegative l k plain_key_examples(2), of "''u''" 0]
      defaultConfig_nonnegative k c l v plain_key_examples(2)
    by blast
qed

section \<open>The fallback of collaborative filtering\<close>

lemma view_calculateUserSimilarity:
  "fst (getUserProfile (snd (calculateUserSimilarity st now a b)) now u) = fst (getUserProfile st now u)"
  by (simp add: calculateUserSimilarity_def split_beta getUserProfile_again)

lemma view_collectSimilarities:
  "fst (getUserProfile (snd (collectSimilarities st now uid ks)) now u) = fst (getUserProfile st now u)"
proof (induction ks arbitrary: st)
  case Nil
  then show ?case by simp
next
  case (Cons k ks)
  show ?case
  proof (cases "k = uid")
    case True
    then show ?thesis by (simp add: Cons.IH)
  next
    case False
    then show ?thesis
      by (simp add: split_beta Cons.IH view_calculateUserSimilarity)
  qed
qed

lemma view_findSimilarUsers:
  "fst (getUserProfile (snd (findSimilarUsers st now uid n)) now u) = fst (getUserProfile st now u)"
  by (simp add: findSimilarUsers_def split_beta view_collectSimilarities)

lemma getContentBasedRecommendations_view:
  "fst (getUserProfile st now uid) = fst (getUserProfile st' now uid) \<Longrightarrow>
   fst (getContentBasedRecommendations st now uid products limit)
     = fst (getContentBasedRecommendations st' now uid products limit)"
  by (simp add: getContentBasedRecommendations_def split_beta)

text \<open>
  C8. Whenever \<^verbatim>\<open>findSimilarUsers\<close> finds nobody for the user,
  \<^verbatim>\<open>getCollaborativeRecommendations\<close> returns exactly what
  \<^verbatim>\<open>getContentBasedRecommendations\<close> returns for the same store, user, candidates and
  limit.
\<close>

theorem collaborative_falls_back_to_content_based:
  assumes "fst (findSimilarUsers st now uid (minSimilarUsers (recommendations cfg))) = []"
  shows "fst (getCollaborativeRecommendations cfg st now uid products limit)
       = fst (getContentBasedRecommendations st now uid products limit)"
proof -
  let ?st1 = "snd (findSimilarUsers st now uid (minSimilarUsers (recommendations cfg)))"
  have "fst (getCollaborativeRecommendations cfg st now uid products limit)
      = fst (getContentBasedRecommendations ?st1 now uid products limit)"
    using assms by (simp add: getCollaborativeRecommendations_def split_beta)
  also have "\<dots> = fst (getContentBasedRecommendations st now uid products limit)"
    by (rule getContentBasedRecommendations_view) (rule view_findSimilarUsers)
  finally show ?thesis .
qed

lemma two_new_users_profiles:
  "fst (getUserProfile two_new_users 0 ''u'') = createNewUserProfile ''u'' 0"
  "fst (getUserProfile two_new_users 0 ''v'') = createNewUserProfile ''v'' 0"
  by (simp_all add: getUserProfile_def two_new_users_def)

lemma two_new_users_no_similar:
  "fst (findSimilarUsers two_new_users 0 ''u'' n) = []"
proof -
  have "fst (calculateUserSimilarity two_new_users 0 ''u'' ''v'') = NaN"
    by (simp add: calculateUserSimilarity_fst two_new_users_profiles userSimilarity_new_profiles)
  then have "fst (collectSimilarities two_new_users 0 ''u'' [''u'', ''v'']) = []"
    by (simp add: split_beta js_gt_def)
  moreover have "map fst two_new_users = [''u'', ''v'']"
    by (simp add: two_new_users_def)
  ultimately show ?thesis
    by (simp add: findSimilarUsers_def split_beta js_sort_def)
qed

lemma plain_key_undefined: "plain_key ''undefined''"
  by (simp add: plain_key_def object_prototype_keys_def)

lemma affinityScore_new:
  "plain_key c \<Longrightarrow> product_category prd = Some c \<Longrightarrow> product_brand prd = None \<Longrightarrow>
   affinityScore (createNewUserProfile u t) prd = Num 0"
  by (simp add: affinityScore_def createNewUserProfile_def js_key_def js_get_plain
      plain_key_undefined js_or_def js_times_def Let_def)

lemma addStyleScore_new: "addStyleScore (createNewUserProfile u t) prd score = score"
  by (simp add: addStyleScore_def createNewUserProfile_def split: option.splits)

lemma priceWithinRange_new:
  "priceWithinRange (createNewUserProfile u t) prd
     = (case product_price prd of None \<Rightarrow> False | Some v \<Rightarrow> js_ge v (Num 0) \<and> js_le v PInf)"
  by (simp add: priceWithinRange_def effectiveRange_def createNewUserProfile_def Let_def
      split: option.splits)

lemma contentScore_new_priced:
  "plain_key c \<Longrightarrow> contentScore (createNewUserProfile u t) (priced_product n c x)
     = Num (if 0 \<le> x then 2/10 else 0)"
  by (simp add: contentScore_def addStyleScore_new priceWithinRange_new
      affinityScore_new [of c] priced_product_def plain_product_def js_ge_def Let_def)

lemma content_based_new_user:
  "fst (getContentBasedRecommendations two_new_users 0 ''u''
         [priced_product 7 ''shoes'' 1500, plain_product 8 ''bags''] 3)
     = [priced_product 7 ''shoes'' 1500]"
proof -
  have "plain_key ''bags''" by (simp add: plain_key_def object_prototype_keys_def)
  then have "contentScore (createNewUserProfile ''u'' 0) (plain_product 8 ''bags'') = Num 0"
    by (simp add: contentScore_def addStyleScore_new priceWithinRange_new
      affinityScore_new [of "''bags''"] plain_product_def Let_def)
  then show ?thesis
    by (simp add: getContentBasedRecommendations_def split_beta two_new_users_profiles
        contentScore_new_priced plain_key_examples js_gt_def js_sort_def)
qed

theorem collaborative_falls_back_to_content_based_witness:
  "fst (findSimilarUsers two_new_users 0 ''u'' (minSimilarUsers (recommendations defaultConfig))) = [] \<and>
   fst (getCollaborativeRecommendations defaultConfig two_new_users 0 ''u''
          [priced_product 7 ''shoes'' 1500, plain_product 8 ''bags''] 3)
     = [priced_product 7 ''shoes'' 1500]"
  using collaborative_falls_back_to_content_based
          [OF two_new_users_no_similar [of "minSimilarUsers (recommendations defaultConfig)"],
            of "[priced_product 7 ''shoes'' 1500, plain_product 8 ''bags'']" 3]
  by (simp add: two_new_users_no_similar content_based_new_user)

section \<open>The contextual boost\<close>

lemma contextualBoostOf_product:
  "contextualBoostOf ctx prd =
     (if product_tags prd \<noteq> None \<and> ctx_timeOfDay ctx = Some ''morning'' \<and> has_tag (the (product_tags prd)) ''work'' then 12/10 else 1)
   * (if product_tags prd \<noteq> None \<and> ctx_timeOfDay ctx = Some ''evening'' \<and> has_tag (the (product_tags prd)) ''casual'' then 12/10 else 1)
   * (if product_tags prd \<noteq> None \<and> ctx_isWeekend ctx \<and> has_tag (the (product_tags prd)) ''leisure'' then 11/10 else 1)
   * (if product_season prd = ctx_season ctx then 13/10 else 1)
   * (if product_category prd = Some ''outerwear'' \<and> ctx_season ctx = Some ''winter'' then 14/10 else 1)
   * (if product_category prd = Some ''swimwear'' \<and> ctx_season ctx = Some ''summer'' then 14/10 else 1)"
  by (cases "product_tags prd") (auto simp: contextualBoostOf_def Let_def)

lemma contextualBoostOf_positive: "0 < contextualBoostOf ctx prd"
  unfolding contextualBoostOf_product by (intro mult_pos_pos) simp_all

lemma js_insert_sorted:
  fixes key :: "'a \<Rightarrow> real"
  assumes "sorted_wrt (\<lambda>a b. key a \<ge> key b) ys"
  shows "sorted_wrt (\<lambda>a b. key a \<ge> key b) (js_insert (\<lambda>a b. Num (key b - key a)) x ys)"
  using assms
proof (induction ys)
  case Nil
  then show ?case by simp
next
  case (Cons y ys)
  have s: "set (js_insert (\<lambda>a b. Num (key b - key a)) x ys) = insert x (set ys)"
    using mset_js_insert [of "\<lambda>a b. Num (key b - key a)" x ys]
    by (metis set_mset_mset set_mset_add_mset_insert)
  show ?case
  proof (cases "js_gt (Num (key y - key x)) (Num 0)")
    case True
    then have "key x < key y" by (simp add: js_gt_def)
    with Cons show ?thesis using True by (auto simp: s)
  next
    case False
    then have "key y \<le> key x" by (simp add: js_gt_def)
    with Cons.prems show ?thesis using False by auto
  qed
qed

lemma js_sort_sorted:
  fixes key :: "'a \<Rightarrow> real"
  shows "sorted_wrt (\<lambda>a b. key a \<ge> key b) (js_sort (\<lambda>a b. Num (key b - key a)) xs)"
  by (induction xs) (simp_all add: js_sort_def js_insert_sorted)

lemma sorted_wrt_take: "sorted_wrt P xs \<Longrightarrow> sorted_wrt P (take n xs)"
  by (metis append_take_drop_id sorted_wrt_append)

lemma length_getPersonalizedRecommendations:
  "length (fst (getPersonalizedRecommendations cfg st now uid products limit)) \<le> limit"
  by (simp add: getPersonalizedRecommendations_def split_beta Let_def applyDiversityFilter_length)

lemma getRecommendations_contextual:
  assumes "opt_includeContextual opts" and "enabled (realTimeAdaptation cfg)"
  shows "fst (getRecommendations cfg st now ctx productCatalog uid opts)
           = map (\<lambda>(prd, boost). (prd, Some boost))
               (js_sort (\<lambda>a b. Num (or_default (Some (snd b)) 1 - or_default (Some (snd a)) 1))
                  (map (\<lambda>prd. (prd, contextualBoostOf ctx prd))
                     (fst (getPersonalizedRecommendations cfg st now uid
                             (filterProducts opts productCatalog) (opt_limit opts)))))"
  using assms length_getPersonalizedRecommendations
          [of cfg st now uid "filterProducts opts productCatalog" "opt_limit opts"]
  by (simp add: getRecommendations_def applyContextualBoost_def Let_def split_beta length_js_sort)

lemma boosted_sorted:
  fixes recs :: "'a product_scheme list" and ctx :: contextualData
  defines "srt \<equiv> js_sort (\<lambda>a b. Num (or_default (Some (snd b)) 1 - or_default (Some (snd a)) 1))
                     (map (\<lambda>prd. (prd, contextualBoostOf ctx prd)) recs)"
  shows "list_all (\<lambda>r. snd r = contextualBoostOf ctx (fst r)) srt \<and>
         sorted_wrt (\<lambda>a b. contextualBoostOf ctx (fst a) \<ge> contextualBoostOf ctx (fst b)) srt \<and>
         mset (map fst srt) = mset recs"
proof -
  let ?cmp = "\<lambda>a b :: 'a product_scheme \<times> real. Num (or_default (Some (snd b)) 1 - or_default (Some (snd a)) 1)"
  let ?boosted = "map (\<lambda>prd. (prd, contextualBoostOf ctx prd)) recs"
  have el: "snd r = contextualBoostOf ctx (fst r)" if "r \<in> set srt" for r
  proof -
    from that have "r \<in> set ?boosted" unfolding srt_def by (simp only: set_js_sort)
    then show ?thesis by auto
  qed
  have key: "or_default (Some (snd r)) 1 = contextualBoostOf ctx (fst r)" if "r \<in> set srt" for r
    using el [OF that] contextualBoostOf_positive [of ctx "fst r"] by (simp add: or_default_def)
  have "sorted_wrt (\<lambda>a b. or_default (Some (snd a)) 1 \<ge> or_default (Some (snd b)) 1) srt"
    unfolding srt_def by (rule js_sort_sorted)
  then have "sorted_wrt (\<lambda>a b. contextualBoostOf ctx (fst a) \<ge> contextualBoostOf ctx (fst b)) srt"
    by (rule sorted_wrt_mono_rel [rotated]) (simp add: key)
  moreover have "list_all (\<lambda>r. snd r = contextualBoostOf ctx (fst r)) srt"
    using el by (simp add: list_all_iff)
  moreover have "mset (map fst srt) = mset recs"
  proof -
    have "mset (map fst srt) = image_mset fst (mset ?boosted)"
      unfolding srt_def by (simp only: mset_map mset_js_sort)
    also have "\<dots> = mset recs" by (simp add: image_mset.compositionality o_def)
    finally show ?thesis .
  qed
  ultimately show ?thesis by simp
qed

text \<open>
  C7, as the source has it: \<^verbatim>\<open>applyContextualBoost\<close> returns the products it was given,
  in their order, each with a \<^verbatim>\<open>contextualBoost\<close> that is the product of the fixed
  multipliers that match (1.2 for a work tag in the morning, 1.2 for a casual tag in the
  evening, 1.1 for a leisure tag on a weekend, 1.3 for the season, 1.4 for outerwear in
  winter, 1.4 for swimwear in summer). The sort is the caller's: when the boost is
  enabled, \<^verbatim>\<open>getRecommendations\<close> returns the products that
  \<^verbatim>\<open>getPersonalizedRecommendations\<close> gives for the filtered catalog, each of them once
  for each time it occurs there, each with its boost, highest boost first.
\<close>

theorem applyContextualBoost_attaches_boost:
  "map fst (fst (applyContextualBoost st now ctx recs uid)) = recs \<and>
   map snd (fst (applyContextualBoost st now ctx recs uid)) = map (contextualBoostOf ctx) recs \<and>
   contextualBoostOf ctx prd =
     (if product_tags prd \<noteq> None \<and> ctx_timeOfDay ctx = Some ''morning'' \<and> has_tag (the (product_tags prd)) ''work'' then 12/10 else 1)
   * (if product_tags prd \<noteq> None \<and> ctx_timeOfDay ctx = Some ''evening'' \<and> has_tag (the (product_tags prd)) ''casual'' then 12/10 else 1)
   * (if product_tags prd \<noteq> None \<and> ctx_isWeekend ctx \<and> has_tag (the (product_tags prd)) ''leisure'' then 11/10 else 1)
   * (if product_season prd = ctx_season ctx then 13/10 else 1)
   * (if product_category prd = Some ''outerwear'' \<and> ctx_season ctx = Some ''winter'' then 14/10 else 1)
   * (if product_category prd = Some ''swimwear'' \<and> ctx_season ctx = Some ''summer'' then 14/10 else 1) \<and>
   (opt_includeContextual opts \<and> enabled (realTimeAdaptation cfg) \<longrightarrow>
      mset (map fst (fst (getRecommendations cfg st' now' ctx productCatalog uid' opts)))
        = mset (fst (getPersonalizedRecommendations cfg st' now' uid'
                       (filterProducts opts productCatalog) (opt_limit opts))) \<and>
      map snd (fst (getRecommendations cfg st' now' ctx productCatalog uid' opts))
        = map (\<lambda>r. Some (contextualBoostOf ctx (fst r)))
            (fst (getRecommendations cfg st' now' ctx productCatalog uid' opts)) \<and>
      sorted_wrt (\<lambda>a b. contextualBoostOf ctx (fst a) \<ge> contextualBoostOf ctx (fst b))
        (fst (getRecommendations cfg st' now' ctx productCatalog uid' opts)))"
proof -
  have a: "map fst (fst (applyContextualBoost st now ctx recs uid)) = recs"
    by (simp add: applyContextualBoost_def split_beta o_def)
  have b: "map snd (fst (applyContextualBoost st now ctx recs uid)) = map (contextualBoostOf ctx) recs"
    by (simp add: applyContextualBoost_def split_beta o_def)
  have c: "mset (map fst (fst (getRecommendations cfg st' now' ctx productCatalog uid' opts)))
        = mset (fst (getPersonalizedRecommendations cfg st' now' uid'
                       (filterProducts opts productCatalog) (opt_limit opts))) \<and>
      map snd (fst (getRecommendations cfg st' now' ctx productCatalog uid' opts))
        = map (\<lambda>r. Some (contextualBoostOf ctx (fst r)))
            (fst (getRecommendations cfg st' now' ctx productCatalog uid' opts)) \<and>
      sorted_wrt (\<lambda>a b. contextualBoostOf ctx (fst a) \<ge> contextualBoostOf ctx (fst b))
        (fst (getRecommendations cfg st' now' ctx productCatalog uid' opts))"
    if h: "opt_includeContextual opts \<and> enabled (realTimeAdaptation cfg)"
  proof -
    define rs where "rs = fst (getPersonalizedRecommendations cfg st' now' uid'
                       (filterProducts opts productCatalog) (opt_limit opts))"
    define srt where "srt = js_sort (\<lambda>a b. Num (or_default (Some (snd b)) 1 - or_default (Some (snd a)) 1))
                     (map (\<lambda>prd. (prd, contextualBoostOf ctx prd)) rs)"
    have r: "fst (getRecommendations cfg st' now' ctx productCatalog uid' opts)
           = map (\<lambda>(prd, boost). (prd, Some boost)) srt"
      using h getRecommendations_contextual [of opts cfg st' now' ctx productCatalog uid']
      by (simp add: srt_def rs_def)
    have p: "list_all (\<lambda>r. snd r = contextualBoostOf ctx (fst r)) srt"
      and q: "sorted_wrt (\<lambda>a b. contextualBoostOf ctx (fst a) \<ge> contextualBoostOf ctx (fst b)) srt"
      and m: "mset (map fst srt) = mset rs"
      unfolding srt_def using boosted_sorted [of ctx rs] by simp_all
    from p have "map snd (map (\<lambda>(prd, boost). (prd, Some boost)) srt)
        = map (\<lambda>r. Some (contextualBoostOf ctx (fst r))) (map (\<lambda>(prd, boost). (prd, Some boost)) srt)"
      by (simp add: list_all_iff split_beta)
    moreover from q have "sorted_wrt (\<lambda>a b. contextualBoostOf ctx (fst a) \<ge> contextualBoostOf ctx (fst b))
        (map (\<lambda>(prd, boost). (prd, Some boost)) srt)"
      by (simp add: sorted_wrt_map split_beta)
    moreover from m have "mset (map fst (map (\<lambda>(prd, boost). (prd, Some boost)) srt)) = mset rs"
      by (simp add: split_beta o_def)
    ultimately show ?thesis by (simp only: r rs_def simp_thms)
  qed
  show ?thesis
    using a b c contextualBoostOf_product [of ctx prd] by blast
qed

text \<open>
  C7. The claim is that \<^verbatim>\<open>applyContextualBoost\<close> multiplies each product's score by
  the matching multipliers and returns the list sorted by the boosted score, highest
  first. The function gets products, which carry no score, adds the field
  \<^verbatim>\<open>contextualBoost\<close> to each, and returns them in the order it got them: on a winter
  morning, shoes followed by outerwear come back with boosts 1 and 1.4, in that order.
\<close>

theorem applyContextualBoost_keeps_input_order:
  "map snd (fst (applyContextualBoost [] 0 winter_context
                   [plain_product 7 ''shoes'', plain_product 8 ''outerwear''] ''u''))
     = [1, 14/10] \<and>
   \<not> sorted_wrt (\<lambda>a b. a \<ge> b)
       (map snd (fst (applyContextualBoost [] 0 winter_context
                   [plain_product 7 ''shoes'', plain_product 8 ''outerwear''] ''u'')))"
proof -
  have "map snd (fst (applyContextualBoost [] 0 winter_context
                   [plain_product 7 ''shoes'', plain_product 8 ''outerwear''] ''u''))
     = [1, 14/10]"
    by (simp add: applyContextualBoost_def split_beta contextualBoostOf_def winter_context_def
      plain_product_def Let_def)
  then show ?thesis by (simp add: sorted_wrt2_simps del: sorted_wrt.simps)
qed

lemma contentScore_new_catalog:
  "plain_key c \<Longrightarrow> 0 \<le> x \<Longrightarrow>
     contentScore (createNewUserProfile u t) (catalog_entry n c x) = Num (2/10)"
  by (simp add: contentScore_def addStyleScore_new priceWithinRange_new
      affinityScore_new [of c] catalog_entry_def js_ge_def Let_def)

lemma plain_key_outerwear: "plain_key ''outerwear''"
  by (simp add: plain_key_def object_prototype_keys_def)

lemma catalog_entry_neq: "catalog_entry 7 ''shoes'' 1500 \<noteq> catalog_entry 8 ''outerwear'' 3000"
  by (simp add: catalog_entry_def)

lemma catalog_entry_id: "product_id (catalog_entry n c x) = n"
  by (simp add: catalog_entry_def)

lemma content_based_catalog:
  assumes "fst (getUserProfile st 0 ''u'') = createNewUserProfile ''u'' 0"
  shows "fst (getContentBasedRecommendations st 0 ''u''
         [catalog_entry 7 ''shoes'' 1500, catalog_entry 8 ''outerwear'' 3000] 20)
     = [catalog_entry 7 ''shoes'' 1500, catalog_entry 8 ''outerwear'' 3000]"
  by (simp add: getContentBasedRecommendations_def split_beta assms
      contentScore_new_catalog plain_key_examples plain_key_outerwear js_gt_def js_sub_def
      js_sort_def)

lemma personalized_catalog:
  "fst (getPersonalizedRecommendations defaultConfig [] 0 ''u''
          [catalog_entry 7 ''shoes'' 1500, catalog_entry 8 ''outerwear'' 3000] 10)
     = [catalog_entry 7 ''shoes'' 1500, catalog_entry 8 ''outerwear'' 3000]"
proof -
  let ?ps = "[catalog_entry 7 ''shoes'' 1500, catalog_entry 8 ''outerwear'' 3000]"
  have f: "findSimilarUsers [] 0 ''u'' n = ([], [])" for n
    by (simp add: findSimilarUsers_def js_sort_def)
  have c: "fst (getCollaborativeRecommendations defaultConfig [] 0 ''u'' ?ps 20) = ?ps"
    by (simp add: getCollaborativeRecommendations_def f content_based_catalog getUserProfile_def)
  have s: "snd (getCollaborativeRecommendations defaultConfig [] 0 ''u'' ?ps 20)
             = [(''u'', createNewUserProfile ''u'' 0)]"
    by (simp add: getCollaborativeRecommendations_def f getContentBasedRecommendations_def
        getUserProfile_def)
  have b: "fst (getContentBasedRecommendations [(''u'', createNewUserProfile ''u'' 0)] 0 ''u'' ?ps 20) = ?ps"
    by (simp add: content_based_catalog getUserProfile_def)
  have h: "hybridWeight (recommendations defaultConfig) = 7/10"
    by (simp add: defaultConfig_def)
  have s1: "addRankScores (7/10) ?ps [] = [(7, 7/10), (8, 7/20)]"
    by (simp add: addRankScores_def enumerate_eq_zip real_get_or_zero_def or_default_def
        catalog_entry_id Let_def upt_rec)
  have s2: "addRankScores (3/10) ?ps [(7, 7/10), (8, 7/20)] = [(7, 1), (8, 1/2)]"
    by (simp add: addRankScores_def enumerate_eq_zip real_get_or_zero_def or_default_def
        catalog_entry_id Let_def upt_rec)
  have sc: "addRankScores (3/10) ?ps (addRankScores (7/10) ?ps []) = [(7, 1), (8, 1/2)]"
    by (simp only: s1 s2)
  have so: "js_sort (\<lambda>a b. Num (snd b - snd a)) [(7::nat, 1::real), (8, 1/2)] = [(7, 1), (8, 1/2)]"
    by (simp add: js_sort_def js_gt_def)
  show ?thesis
    by (simp add: getPersonalizedRecommendations_def Let_def split_beta c s b h sc so
        find_product_def catalog_entry_id applyDiversityFilter_def)
qed

lemma recommendations_catalog:
  "fst (getRecommendations defaultConfig [] 0 winter_context
        [catalog_entry 7 ''shoes'' 1500, catalog_entry 8 ''outerwear'' 3000] ''u'' default_options)
     = [(catalog_entry 8 ''outerwear'' 3000, Some (14/10)), (catalog_entry 7 ''shoes'' 1500, Some 1)]"
proof -
  have f: "filterProducts default_options
             [catalog_entry 7 ''shoes'' 1500, catalog_entry 8 ''outerwear'' 3000]
           = [catalog_entry 7 ''shoes'' 1500, catalog_entry 8 ''outerwear'' 3000]"
    by (simp add: filterProducts_def default_options_def str_truthy_def)
  have l: "opt_limit default_options = 10" by (simp add: default_options_def)
  have b7: "contextualBoostOf winter_context (catalog_entry 7 ''shoes'' 1500) = 1"
    by (simp add: contextualBoostOf_def winter_context_def catalog_entry_def has_tag_def Let_def)
  have b8: "contextualBoostOf winter_context (catalog_entry 8 ''outerwear'' 3000) = 14/10"
    by (simp add: contextualBoostOf_def winter_context_def catalog_entry_def has_tag_def Let_def)
  have h: "opt_includeContextual default_options" "enabled (realTimeAdaptation defaultConfig)"
    by (simp_all add: default_options_def defaultConfig_def)
  show ?thesis
    by (simp add: getRecommendations_contextual [OF h] f l personalized_catalog b7 b8
        js_sort_def js_gt_def or_default_def)
qed

theorem applyContextualBoost_attaches_boost_witness:
  "opt_includeContextual default_options \<and> enabled (realTimeAdaptation defaultConfig) \<and>
   fst (getPersonalizedRecommendations defaultConfig [] 0 ''u''
          (filterProducts default_options
             [catalog_entry 7 ''shoes'' 1500, catalog_entry 8 ''outerwear'' 3000])
          (opt_limit default_options))
     = [catalog_entry 7 ''shoes'' 1500, catalog_entry 8 ''outerwear'' 3000] \<and>
   fst (getRecommendations defaultConfig [] 0 winter_context
        [catalog_entry 7 ''shoes'' 1500, catalog_entry 8 ''outerwear'' 3000] ''u'' default_options)
     = [(catalog_entry 8 ''outerwear'' 3000, Some (14/10)), (catalog_entry 7 ''shoes'' 1500, Some 1)] \<and>
   mset (map fst (fst (getRecommendations defaultConfig [] 0 winter_context
        [catalog_entry 7 ''shoes'' 1500, catalog_entry 8 ''outerwear'' 3000] ''u'' default_options)))
     = mset (fst (getPersonalizedRecommendations defaultConfig [] 0 ''u''
          (filterProducts default_options
             [catalog_entry 7 ''shoes'' 1500, catalog_entry 8 ''outerwear'' 3000])
          (opt_limit default_options))) \<and>
   map snd (fst (getRecommendations defaultConfig [] 0 winter_context
        [catalog_entry 7 ''shoes'' 1500, catalog_entry 8 ''outerwear'' 3000] ''u'' default_options))
     = map (\<lambda>r. Some (contextualBoostOf winter_context (fst r)))
        (fst (getRecommendations defaultConfig [] 0 winter_context
        [catalog_entry 7 ''shoes'' 1500, catalog_entry 8 ''outerwear'' 3000] ''u'' default_options)) \<and>
   sorted_wrt (\<lambda>a b. contextualBoostOf winter_context (fst a) \<ge> contextualBoostOf winter_context (fst b))
     (fst (getRecommendations defaultConfig [] 0 winter_context
        [catalog_entry 7 ''shoes'' 1500, catalog_entry 8 ''outerwear'' 3000] ''u'' default_options))"
proof -
  have h: "opt_includeContextual default_options \<and> enabled (realTimeAdaptation defaultConfig)"
    by (simp add: default_options_def defaultConfig_def)
  have f: "filterProducts default_options
             [catalog_entry 7 ''shoes'' 1500, catalog_entry 8 ''outerwear'' 3000]
           = [catalog_entry 7 ''shoes'' 1500, catalog_entry 8 ''outerwear'' 3000]"
    by (simp add: filterProducts_def default_options_def str_truthy_def)
  have p: "fst (getPersonalizedRecommendations defaultConfig [] 0 ''u''
          (filterProducts default_options
             [catalog_entry 7 ''shoes'' 1500, catalog_entry 8 ''outerwear'' 3000])
          (opt_limit default_options))
     = [catalog_entry 7 ''shoes'' 1500, catalog_entry 8 ''outerwear'' 3000]"
    unfolding f by (simp add: personalized_catalog default_options_def)
  show ?thesis
    using h p recommendations_catalog applyContextualBoost_attaches_boost
      [of "[]" 0 winter_context "[]::catalog_product list" "''u''" "catalog_entry 7 ''shoes'' 1500"
          default_options defaultConfig "[]" 0 "[catalog_entry 7 ''shoes'' 1500, catalog_entry 8 ''outerwear'' 3000]" "''u''"]
    by blast
qed

section \<open>The price range\<close>

lemma updateProfile_invariant:
  assumes "P p"
    and "\<And>q h. P q \<Longrightarrow> P (q\<lparr>behaviorHistory := h\<rparr>)"
    and "\<And>q c t. P q \<Longrightarrow> P (updateCategoryAffinity cfg q c t)"
    and "\<And>q b t. P q \<Longrightarrow> P (updateBrandAffinity cfg q b t)"
    and "\<And>q pr. P q \<Longrightarrow> P (updatePricePreferences q pr)"
    and "\<And>q s t. P q \<Longrightarrow> P (updateStyleProfile q s t)"
    and "\<And>q. P q \<Longrightarrow> P (updateConversionMetrics clk q i)"
    and "\<And>q n t. P q \<Longrightarrow> P (q\<lparr>totalInteractions := n, lastUpdated := t\<rparr>)"
  shows "P (updateProfile cfg clk p i)"
proof -
  define p1 where "p1 = p\<lparr>behaviorHistory := behaviorHistory p @ [historyEntry cfg clk i]\<rparr>"
  define p2 where "p2 = (if length (behaviorHistory p1) > maxHistoryItems (userProfiling cfg)
               then p1\<lparr>behaviorHistory :=
                        slice_last (maxHistoryItems (userProfiling cfg)) (behaviorHistory p1)\<rparr>
               else p1)"
  define p3 where "p3 = (if str_truthy (category i)
               then updateCategoryAffinity cfg p2 (the (category i)) (type i) else p2)"
  define p4 where "p4 = (if str_truthy (brand i)
               then updateBrandAffinity cfg p3 (the (brand i)) (type i) else p3)"
  define p5 where "p5 = (if price_truthy (price i)
               then updatePricePreferences p4 (the (price i)) else p4)"
  define p6 where "p6 = (if str_truthy (style i) \<or> tags i \<noteq> None
               then updateStyleProfile p5 (style i) (tags i) else p5)"
  define p7 where "p7 = updateConversionMetrics clk p6 i"
  have r: "updateProfile cfg clk p i = p7\<lparr>totalInteractions := totalInteractions p7 + 1, lastUpdated := now_update clk\<rparr>"
    unfolding updateProfile_def Let_def p7_def p6_def p5_def p4_def p3_def p2_def p1_def ..
  have "P p1" unfolding p1_def using assms(1) by (rule assms(2))
  then have "P p2" unfolding p2_def by (simp add: assms(2))
  then have "P p3" unfolding p3_def by (simp add: assms(3))
  then have "P p4" unfolding p4_def by (simp add: assms(4))
  then have "P p5" unfolding p5_def by (simp add: assms(5))
  then have "P p6" unfolding p6_def by (simp add: assms(6))
  then have "P p7" unfolding p7_def by (rule assms(7))
  then show ?thesis unfolding r by (rule assms(8))
qed

lemma js_gt_PInf: "\<not> js_gt pr PInf"
  by (cases pr) (simp_all add: js_gt_def)

lemma priceRange_updatePricePreferences:
  "priceRange (updatePricePreferences p pr) =
     (let r = priceRange p;
          r = (if \<not> js_truthy (min_bound r) \<or> js_lt pr (min_bound r) then r\<lparr>min_bound := pr\<rparr> else r);
          r = (if \<not> js_truthy (max_bound r) \<or> js_gt pr (max_bound r) then r\<lparr>max_bound := pr\<rparr> else r)
      in r)"
  by (simp add: updatePricePreferences_def Let_def)

lemma max_bound_updatePricePreferences:
  "max_bound (priceRange p) = PInf \<Longrightarrow> max_bound (priceRange (updatePricePreferences p pr)) = PInf"
  by (simp add: priceRange_updatePricePreferences Let_def js_gt_PInf)

lemma recordedPurchasePrices_frames:
  "recordedPurchasePrices (q\<lparr>behaviorHistory := h\<rparr>) = recordedPurchasePrices q"
  "recordedPurchasePrices (updateCategoryAffinity cfg q c t) = recordedPurchasePrices q"
  "recordedPurchasePrices (updateBrandAffinity cfg q b t) = recordedPurchasePrices q"
  "recordedPurchasePrices (updatePricePreferences q pr) = recordedPurchasePrices q"
  "recordedPurchasePrices (updateStyleProfile q s ts) = recordedPurchasePrices q"
  "recordedPurchasePrices (q\<lparr>totalInteractions := n, lastUpdated := u\<rparr>) = recordedPurchasePrices q"
  by (simp_all add: recordedPurchasePrices_def frames)

lemma recordedPurchasePrices_updateConversionMetrics:
  "length (recordedPurchasePrices q) \<le> length (recordedPurchasePrices (updateConversionMetrics clk q i))"
  by (simp add: recordedPurchasePrices_def updateConversionMetrics_def Let_def)

lemma preferredPriceRange_updatePricePreferences:
  "length (recordedPurchasePrices q) < 5 \<Longrightarrow>
     preferredPriceRange (updatePricePreferences q pr) = preferredPriceRange q"
  by (simp add: updatePricePreferences_def Let_def length_js_sort recordedPurchasePrices_def)

lemma price_invariant_step:
  "price_invariant p \<Longrightarrow> price_invariant (updateProfile cfg clk p i)"
proof (rule updateProfile_invariant [where P = price_invariant])
  show "\<And>q pr. price_invariant q \<Longrightarrow> price_invariant (updatePricePreferences q pr)"
    by (simp add: price_invariant_def recordedPurchasePrices_frames max_bound_updatePricePreferences
        preferredPriceRange_updatePricePreferences)
  show "\<And>q. price_invariant q \<Longrightarrow> price_invariant (updateConversionMetrics clk q i)"
    using recordedPurchasePrices_updateConversionMetrics [of _ clk i]
    by (simp add: price_invariant_def frames) (meson le_less_trans)
qed (simp_all add: price_invariant_def recordedPurchasePrices_frames frames)

lemma price_invariant_new: "price_invariant (createNewUserProfile uid t)"
  by (simp add: price_invariant_def createNewUserProfile_def)

lemma price_invariant_run:
  "price_invariant p \<Longrightarrow> q \<in> set (profiles_run cfg p steps) \<Longrightarrow> price_invariant q"
proof (induction steps arbitrary: p)
  case Nil
  then show ?case by simp
next
  case (Cons s steps)
  obtain clk i where s: "s = (clk, i)" by (cases s)
  from Cons.prems(2) have "q = p \<or> q \<in> set (profiles_run cfg (updateProfile cfg clk p i) steps)"
    by (simp add: s)
  then show ?case
    using Cons.IH [OF price_invariant_step [OF Cons.prems(1)]] Cons.prems(1) by blast
qed

lemma js_add_zero: "js_add x (Num 0) = x"
  by (cases x) simp_all

lemma contentScore_price_contribution:
  "contentScore p prd =
     addStyleScore p prd
       (js_add (affinityScore p prd) (Num (if priceWithinRange p prd then 2/10 else 0)))"
  by (simp add: contentScore_def Let_def js_add_zero)

lemma priceWithinRange_open_top:
  assumes "max_bound (priceRange p) = PInf" and "preferredPriceRange p = None"
  shows "priceWithinRange p prd =
     (case product_price prd of None \<Rightarrow> False | Some v \<Rightarrow> js_le (min_bound (priceRange p)) v)"
proof (cases "product_price prd")
  case None
  then show ?thesis by (simp add: priceWithinRange_def)
next
  case (Some v)
  have "js_le m v \<Longrightarrow> js_le v PInf" for m
    by (cases m; cases v) simp_all
  with Some assms show ?thesis
    by (auto simp: priceWithinRange_def effectiveRange_def js_ge_def)
qed

text \<open>
  C10, as the source has it: a new profile has the price range from 0 to \<^verbatim>\<open>Infinity\<close>;
  in every profile that recorded interactions make of a new profile the upper bound is
  \<^verbatim>\<open>Infinity\<close>, and \<^verbatim>\<open>updatePricePreferences\<close> leaves it so for every price; while
  fewer than five purchase prices are recorded there is no \<^verbatim>\<open>preferredPriceRange\<close>, and
  a product passes the price test exactly when it has a price that is at least the lower
  bound of \<^verbatim>\<open>priceRange\<close>. For every product, with tags or without, the price test
  contributes 0.2 to the content-based score when it is passed and nothing otherwise,
  between the affinity terms and the style term.
\<close>

theorem price_range_stays_open_above:
  assumes "p \<in> set (profiles_run cfg (createNewUserProfile uid t) steps)"
  shows "priceRange (createNewUserProfile uid t) = \<lparr>min_bound = Num 0, max_bound = PInf\<rparr> \<and>
         max_bound (priceRange p) = PInf \<and>
         max_bound (priceRange (updatePricePreferences p pr)) = PInf \<and>
         (length (recordedPurchasePrices p) < 5 \<longrightarrow>
            preferredPriceRange p = None \<and>
            priceWithinRange p prd =
              (case product_price prd of None \<Rightarrow> False
               | Some v \<Rightarrow> js_le (min_bound (priceRange p)) v)) \<and>
         contentScore p prd =
           addStyleScore p prd
             (js_add (affinityScore p prd) (Num (if priceWithinRange p prd then 2/10 else 0)))"
proof -
  have inv: "price_invariant p"
    using price_invariant_run [OF price_invariant_new assms] .
  then have m: "max_bound (priceRange p) = PInf"
    by (simp add: price_invariant_def)
  have "priceRange (createNewUserProfile uid t) = \<lparr>min_bound = Num 0, max_bound = PInf\<rparr>"
    by (simp add: createNewUserProfile_def)
  moreover have "max_bound (priceRange (updatePricePreferences p pr)) = PInf"
    using m by (rule max_bound_updatePricePreferences)
  moreover have "preferredPriceRange p = None \<and> priceWithinRange p prd =
              (case product_price prd of None \<Rightarrow> False
               | Some v \<Rightarrow> js_le (min_bound (priceRange p)) v)"
    if "length (recordedPurchasePrices p) < 5"
  proof -
    from inv that have n: "preferredPriceRange p = None" by (simp add: price_invariant_def)
    with priceWithinRange_open_top [OF m n] show ?thesis by simp
  qed
  ultimately show ?thesis using m contentScore_price_contribution [of p prd] by blast
qed

lemma recordedPurchasePrices_updateProfile:
  assumes "type i \<noteq> ''purchase''"
  shows "recordedPurchasePrices (updateProfile cfg clk p i) = recordedPurchasePrices p"
proof (rule updateProfile_invariant [where P = "\<lambda>q. recordedPurchasePrices q = recordedPurchasePrices p"])
  show "\<And>q. recordedPurchasePrices q = recordedPurchasePrices p \<Longrightarrow>
          recordedPurchasePrices (updateConversionMetrics clk q i) = recordedPurchasePrices p"
    using assms by (simp add: updateConversionMetrics_def)
qed (simp_all add: recordedPurchasePrices_frames)

lemma priceRange_updateProfile_first_price:
  assumes "price i = Some (Num x)" and "x \<noteq> 0" and "priceRange p = \<lparr>min_bound = Num 0, max_bound = PInf\<rparr>"
  shows "priceRange (updateProfile cfg clk p i) = \<lparr>min_bound = Num x, max_bound = PInf\<rparr>"
proof -
  let ?P = "\<lambda>n q. priceRange q = \<lparr>min_bound = Num n, max_bound = PInf\<rparr>"
  define p1 where "p1 = p\<lparr>behaviorHistory := behaviorHistory p @ [historyEntry cfg clk i]\<rparr>"
  define p2 where "p2 = (if length (behaviorHistory p1) > maxHistoryItems (userProfiling cfg)
               then p1\<lparr>behaviorHistory :=
                        slice_last (maxHistoryItems (userProfiling cfg)) (behaviorHistory p1)\<rparr>
               else p1)"
  define p3 where "p3 = (if str_truthy (category i)
               then updateCategoryAffinity cfg p2 (the (category i)) (type i) else p2)"
  define p4 where "p4 = (if str_truthy (brand i)
               then updateBrandAffinity cfg p3 (the (brand i)) (type i) else p3)"
  define p5 where "p5 = (if price_truthy (price i)
               then updatePricePreferences p4 (the (price i)) else p4)"
  define p6 where "p6 = (if str_truthy (style i) \<or> tags i \<noteq> None
               then updateStyleProfile p5 (style i) (tags i) else p5)"
  define p7 where "p7 = updateConversionMetrics clk p6 i"
  have r: "updateProfile cfg clk p i = p7\<lparr>totalInteractions := totalInteractions p7 + 1, lastUpdated := now_update clk\<rparr>"
    unfolding updateProfile_def Let_def p7_def p6_def p5_def p4_def p3_def p2_def p1_def ..
  have "?P 0 p1" unfolding p1_def using assms(3) by simp
  then have "?P 0 p2" unfolding p2_def by simp
  then have "?P 0 p3" unfolding p3_def by (simp add: frames)
  then have "?P 0 p4" unfolding p4_def by (simp add: frames)
  then have "?P x p5" unfolding p5_def using assms(1,2)
    by (simp add: price_truthy_def priceRange_updatePricePreferences js_gt_def)
  then have "?P x p6" unfolding p6_def by (simp add: frames)
  then have "?P x p7" unfolding p7_def by (simp add: frames)
  then show ?thesis unfolding r by simp
qed

lemma untouched_updateProfile:
  assumes "brand i = None" and "style i = None" and "tags i = None"
  shows "brandAffinities (updateProfile cfg clk p i) = brandAffinities p \<and>
         styleProfile (updateProfile cfg clk p i) = styleProfile p"
proof -
  let ?P = "\<lambda>q. brandAffinities q = brandAffinities p \<and> styleProfile q = styleProfile p"
  define p1 where "p1 = p\<lparr>behaviorHistory := behaviorHistory p @ [historyEntry cfg clk i]\<rparr>"
  define p2 where "p2 = (if length (behaviorHistory p1) > maxHistoryItems (userProfiling cfg)
               then p1\<lparr>behaviorHistory :=
                        slice_last (maxHistoryItems (userProfiling cfg)) (behaviorHistory p1)\<rparr>
               else p1)"
  define p3 where "p3 = (if str_truthy (category i)
               then updateCategoryAffinity cfg p2 (the (category i)) (type i) else p2)"
  define p4 where "p4 = (if str_truthy (brand i)
               then updateBrandAffinity cfg p3 (the (brand i)) (type i) else p3)"
  define p5 where "p5 = (if price_truthy (price i)
               then updatePricePreferences p4 (the (price i)) else p4)"
  define p6 where "p6 = (if str_truthy (style i) \<or> tags i \<noteq> None
               then updateStyleProfile p5 (style i) (tags i) else p5)"
  define p7 where "p7 = updateConversionMetrics clk p6 i"
  have r: "updateProfile cfg clk p i = p7\<lparr>totalInteractions := totalInteractions p7 + 1, lastUpdated := now_update clk\<rparr>"
    unfolding updateProfile_def Let_def p7_def p6_def p5_def p4_def p3_def p2_def p1_def ..
  have "?P p1" unfolding p1_def by simp
  then have "?P p2" unfolding p2_def by simp
  then have "?P p3" unfolding p3_def by (simp add: updateCategoryAffinity_def Let_def)
  then have "?P p4" unfolding p4_def using assms(1) by (simp add: str_truthy_def)
  then have "?P p5" unfolding p5_def by (simp add: updatePricePreferences_def Let_def)
  then have "?P p6" unfolding p6_def using assms(2,3) by (simp add: str_truthy_def)
  then have "?P p7" unfolding p7_def by (simp add: updateConversionMetrics_def Let_def)
  then show ?thesis unfolding r by simp
qed

lemma priced_view_fields:
  "type (priced_view c x) = ''view''" "price (priced_view c x) = Some (Num x)"
  "category (priced_view c x) = Some c" "brand (priced_view c x) = None"
  "style (priced_view c x) = None" "tags (priced_view c x) = None"
  by (simp_all add: priced_view_def view_of_def)

lemma new_profile_priceRange:
  "priceRange (createNewUserProfile u t) = \<lparr>min_bound = Num 0, max_bound = PInf\<rparr>"
  "recordedPurchasePrices (createNewUserProfile u t) = []"
  by (simp_all add: createNewUserProfile_def recordedPurchasePrices_def)

lemma after_first_price:
  "priceRange (updateProfile cfg clk (createNewUserProfile u t) (priced_view c 3000))
     = \<lparr>min_bound = Num 3000, max_bound = PInf\<rparr>"
  "recordedPurchasePrices (updateProfile cfg clk (createNewUserProfile u t) (priced_view c 3000)) = []"
  "preferredPriceRange (updateProfile cfg clk (createNewUserProfile u t) (priced_view c 3000)) = None"
proof -
  show a: "priceRange (updateProfile cfg clk (createNewUserProfile u t) (priced_view c 3000))
     = \<lparr>min_bound = Num 3000, max_bound = PInf\<rparr>"
    by (rule priceRange_updateProfile_first_price) (simp_all add: priced_view_fields new_profile_priceRange)
  show b: "recordedPurchasePrices (updateProfile cfg clk (createNewUserProfile u t) (priced_view c 3000)) = []"
    by (simp add: recordedPurchasePrices_updateProfile priced_view_fields new_profile_priceRange)
  have "price_invariant (updateProfile cfg clk (createNewUserProfile u t) (priced_view c 3000))"
    by (intro price_invariant_step price_invariant_new)
  with b show "preferredPriceRange (updateProfile cfg clk (createNewUserProfile u t) (priced_view c 3000)) = None"
    by (simp add: price_invariant_def)
qed

lemma product_price_catalog: "product_price (catalog_entry n c x) = Some (Num x)"
  by (simp add: catalog_entry_def)

lemma affinityScore_after_first_price:
  "affinityScore
     (updateProfile defaultConfig clk (createNewUserProfile u t) (priced_view ''shoes'' 3000))
     (catalog_entry n ''shoes'' x) = Num (9/25)"
proof -
  let ?p = "updateProfile defaultConfig clk (createNewUserProfile u t) (priced_view ''shoes'' 3000)"
  have pt: "plain_key (type (priced_view ''shoes'' 3000))"
    by (simp add: priced_view_fields plain_key_examples)
  have c: "categoryAffinity ?p ''shoes'' = Number (Num (9/10))"
    using categoryAffinity_updateProfile
            [OF priced_view_fields(3) _ plain_key_examples(3) pt
                categoryAffinity_new [OF plain_key_examples(3)], of defaultConfig clk u t]
    by (simp add: priced_view_fields clickWeight_view categoryWeight_shoes)
  have b: "brandAffinities ?p = []"
    using untouched_updateProfile [of "priced_view ''shoes'' 3000" defaultConfig clk
            "createNewUserProfile u t"]
    by (simp add: priced_view_fields createNewUserProfile_def)
  have "js_or (js_get (categoryAffinities ?p) ''shoes'') (Number (Num 0)) = Number (Num (9/10))"
    using c by (simp add: categoryAffinity_def)
  then show ?thesis
    by (simp add: affinityScore_def Let_def b catalog_entry_def js_key_def js_get_plain
        plain_key_undefined js_or_def js_times_def)
qed

lemma addStyleScore_after_first_price:
  "addStyleScore
     (updateProfile defaultConfig clk (createNewUserProfile u t) (priced_view ''shoes'' 3000))
     prd score = score"
proof -
  have "styleProfile (updateProfile defaultConfig clk (createNewUserProfile u t) (priced_view ''shoes'' 3000))
          = styleProfile (createNewUserProfile u t)"
    using untouched_updateProfile [of "priced_view ''shoes'' 3000" defaultConfig clk
            "createNewUserProfile u t"]
    by (simp add: priced_view_fields)
  then show ?thesis
    by (simp add: addStyleScore_def createNewUserProfile_def split: option.splits)
qed

text \<open>
  C10. The claim is that a new profile has the price range from 0 to \<^verbatim>\<open>Infinity\<close>, that
  \<^verbatim>\<open>updatePricePreferences\<close> never moves the upper bound, and that therefore, while
  fewer than five purchase prices are recorded, every product with a numeric price passes
  the price test of the content-based score. The first two parts hold. The lower bound
  does move: after one view of a product priced 3000 the range starts at 3000, and a
  product priced 1500 fails the test.
\<close>

theorem cheaper_product_fails_price_test:
  "length (recordedPurchasePrices
      (fst (updateUserProfile defaultConfig [] winter_clock ''u'' (priced_view ''shoes'' 3000)))) < 5 \<and>
   preferredPriceRange
      (fst (updateUserProfile defaultConfig [] winter_clock ''u'' (priced_view ''shoes'' 3000))) = None \<and>
   priceRange
      (fst (updateUserProfile defaultConfig [] winter_clock ''u'' (priced_view ''shoes'' 3000)))
     = \<lparr>min_bound = Num 3000, max_bound = PInf\<rparr> \<and>
   product_price (catalog_entry 7 ''shoes'' 1500) = Some (Num 1500) \<and>
   \<not> priceWithinRange
      (fst (updateUserProfile defaultConfig [] winter_clock ''u'' (priced_view ''shoes'' 3000)))
      (catalog_entry 7 ''shoes'' 1500) \<and>
   contentScore
      (fst (updateUserProfile defaultConfig [] winter_clock ''u'' (priced_view ''shoes'' 3000)))
      (catalog_entry 7 ''shoes'' 1500) = Num (9/25)"
proof -
  have w: "\<not> priceWithinRange
      (updateProfile defaultConfig winter_clock (createNewUserProfile ''u'' (now_create winter_clock))
         (priced_view ''shoes'' 3000))
      (catalog_entry 7 ''shoes'' 1500)"
    by (simp add: after_first_price product_price_catalog priceWithinRange_def effectiveRange_def
        js_ge_def)
  show ?thesis
    using w
    by (simp add: fst_updateUserProfile getUserProfile_empty after_first_price product_price_catalog
        contentScore_def Let_def affinityScore_after_first_price addStyleScore_after_first_price)
qed

theorem price_range_stays_open_above_witness:
  "updateProfile defaultConfig winter_clock (createNewUserProfile ''u'' 0) (priced_view ''shoes'' 3000)
     \<in> set (profiles_run defaultConfig (createNewUserProfile ''u'' 0)
              [(winter_clock, priced_view ''shoes'' 3000)]) \<and>
   length (recordedPurchasePrices
        (updateProfile defaultConfig winter_clock (createNewUserProfile ''u'' 0) (priced_view ''shoes'' 3000))) < 5 \<and>
   max_bound (priceRange
        (updateProfile defaultConfig winter_clock (createNewUserProfile ''u'' 0) (priced_view ''shoes'' 3000))) = PInf \<and>
   priceWithinRange
        (updateProfile defaultConfig winter_clock (createNewUserProfile ''u'' 0) (priced_view ''shoes'' 3000))
        (catalog_entry 7 ''shoes'' 4000) \<and>
   contentScore
        (updateProfile defaultConfig winter_clock (createNewUserProfile ''u'' 0) (priced_view ''shoes'' 3000))
        (catalog_entry 7 ''shoes'' 4000) = Num (14/25) \<and>
   \<not> priceWithinRange
        (updateProfile defaultConfig winter_clock (createNewUserProfile ''u'' 0) (priced_view ''shoes'' 3000))
        (catalog_entry 8 ''shoes'' 1500) \<and>
   contentScore
        (updateProfile defaultConfig winter_clock (createNewUserProfile ''u'' 0) (priced_view ''shoes'' 3000))
        (catalog_entry 8 ''shoes'' 1500) = Num (9/25)"
proof -
  let ?p = "updateProfile defaultConfig winter_clock (createNewUserProfile ''u'' 0) (priced_view ''shoes'' 3000)"
  have m: "?p \<in> set (profiles_run defaultConfig (createNewUserProfile ''u'' 0)
              [(winter_clock, priced_view ''shoes'' 3000)])"
    by simp
  have l: "length (recordedPurchasePrices ?p) < 5"
    by (simp add: after_first_price)
  show ?thesis
    using m l
      price_range_stays_open_above [OF m, of "Num 0" "catalog_entry 7 ''shoes'' 4000"]
      price_range_stays_open_above [OF m, of "Num 0" "catalog_entry 8 ''shoes'' 1500"]
    by (simp add: after_first_price product_price_catalog affinityScore_after_first_price
        addStyleScore_after_first_price)
qed

end
